theory Spec2Isabelle
  imports Complex_Main "HOL-Library.Word"
begin

unbundle bit_operations_syntax

section \<open>Kernel objects used by the AXI SPI Engine offload PWM trigger\<close>

text \<open>
  The driver \<^verbatim>\<open>drivers/iio/trigger/axi-spi-engine-offload-pwm-trigger.c\<close> works on
  objects of the kernel: devices, IIO triggers, IIO devices, PWM devices and buffers.
  A C pointer to such an object is an identifier, and the objects live in stores of the
  kernel state, so that two pointers to the same trigger see the same reference count.
\<close>

type_synonym dev_id = nat
type_synonym fwnode_id = nat
type_synonym trig_id = nat
type_synonym iio_id = nat
type_synonym pwm_id = nat
type_synonym buf_id = nat

text \<open>
  A C pointer that can be \<^verbatim>\<open>NULL\<close>, an errno packed by \<^verbatim>\<open>ERR_PTR\<close>, or valid.
  \<^verbatim>\<open>IS_ERR\<close> holds of the second form only; \<^verbatim>\<open>ERR_CAST\<close>, which the driver applies to
  error pointers only, keeps the errno.
\<close>

datatype 'a cptr = NULL | ERR_PTR int | PTR 'a

definition IS_ERR :: "'a cptr \<Rightarrow> bool" where
  "IS_ERR p = (case p of ERR_PTR e \<Rightarrow> True | _ \<Rightarrow> False)"

definition ERR_CAST :: "'a cptr \<Rightarrow> 'b cptr" where
  "ERR_CAST p = (case p of ERR_PTR e \<Rightarrow> ERR_PTR e | _ \<Rightarrow> NULL)"

text \<open>The errno values of \<^verbatim>\<open>include/uapi/asm-generic/errno-base.h\<close> and \<^verbatim>\<open>linux/errno.h\<close>.\<close>

definition ENOMEM :: int where "ENOMEM = 12"
definition EINVAL :: int where "EINVAL = 22"
definition ERANGE :: int where "ERANGE = 34"
definition EPROBE_DEFER :: int where "EPROBE_DEFER = 517"

text \<open>
  \<^verbatim>\<open>trig->ops\<close> is the address of an operations table. The driver compares it with the
  address of its own table \<^verbatim>\<open>axi_offload_pwm_trigger_ops\<close>; every other table is foreign.
\<close>

datatype iio_trigger_ops = NULL_ops | axi_offload_pwm_trigger_ops | foreign_ops nat

text \<open>\<^verbatim>\<open>struct axi_offload_pwm_trigger\<close>: the driver data of a trigger.\<close>

record axi_offload_pwm_trigger =
  st_buffer :: buf_id
  st_pwm :: pwm_id

text \<open>
  \<^verbatim>\<open>struct iio_trigger\<close>, the fields the driver touches: \<^verbatim>\<open>ops\<close>, \<^verbatim>\<open>dev.parent\<close>,
  \<^verbatim>\<open>dev.groups\<close> (the names of the attributes), the driver data, the name, and the
  reference count that \<^verbatim>\<open>iio_trigger_get\<close> and \<^verbatim>\<open>iio_trigger_put\<close> move. The driver data
  is what the pointer of \<^verbatim>\<open>iio_trigger_get_drvdata\<close> reads as a
  \<^verbatim>\<open>struct axi_offload_pwm_trigger\<close>; for a foreign trigger its content means nothing,
  and the driver checks \<^verbatim>\<open>ops\<close> before it reads a field of it.
\<close>

record iio_trigger =
  t_name :: string
  t_ops :: iio_trigger_ops
  t_parent :: "dev_id option"
  t_groups :: "string list"
  t_drvdata :: axi_offload_pwm_trigger
  t_refcount :: int

text \<open>\<^verbatim>\<open>struct pwm_state\<close>: period and duty cycle in nanoseconds (\<^verbatim>\<open>u64\<close>), and the enable bit.\<close>

record pwm_state =
  pwm_period :: "64 word"
  pwm_duty_cycle :: "64 word"
  pwm_enabled :: bool

text \<open>
  \<^verbatim>\<open>struct iio_dev\<close>: the mode bits, the active trigger (\<^verbatim>\<open>NULL\<close> is \<open>None\<close>), and the
  buffers attached to the device, oldest first.
\<close>

record iio_dev =
  indio_modes :: "32 word"
  indio_trig :: "trig_id option"
  indio_buffers :: "buf_id list"

definition INDIO_BUFFER_HARDWARE :: "32 word" where "INDIO_BUFFER_HARDWARE = 0x08"
definition INDIO_HARDWARE_TRIGGERED :: "32 word" where "INDIO_HARDWARE_TRIGGERED = 0x20"

text \<open>\<^verbatim>\<open>struct platform_device\<close>: its device and the parent of that device.\<close>

record platform_device =
  pdev_dev :: dev_id
  pdev_parent :: dev_id

text \<open>
  A release action of a device: the callback together with its \<^verbatim>\<open>data\<close> argument.
  \<open>Trigger_release\<close> is \<^verbatim>\<open>axi_spi_engine_offload_pwm_trigger_release\<close>, \<open>Pwm_disable_action\<close>
  is \<^verbatim>\<open>axi_offload_pwm_trigger_pwm_disable\<close>, \<open>Trigger_unregister\<close> is the action that
  \<^verbatim>\<open>devm_iio_trigger_register\<close> adds.
\<close>

datatype devm_action = Trigger_release trig_id | Pwm_disable_action pwm_id | Trigger_unregister trig_id

text \<open>The calls the driver makes into the rest of the kernel, in the order it makes them.\<close>

datatype kcall =
    Device_property_present dev_id string
  | Fwnode_find_reference dev_id string nat
  | Bus_find_device_by_fwnode "fwnode_id cptr"
  | Iio_trigger_acquire_by_parent dev_id
  | Devm_add_action_or_reset dev_id devm_action
  | Iio_trigger_get trig_id
  | Iio_trigger_put trig_id
  | Iio_device_attach_buffer iio_id buf_id
  | Pwm_config pwm_id int int
  | Pwm_enable pwm_id
  | Pwm_disable pwm_id
  | Devm_kzalloc dev_id
  | Devm_pwm_get dev_id
  | Devm_iio_dmaengine_buffer_alloc dev_id string
  | Devm_iio_trigger_alloc dev_id string
  | Devm_iio_trigger_register dev_id trig_id

text \<open>
  The kernel state: the stores of triggers, PWM devices and IIO devices, the global list
  of registered triggers, the release actions of every device (latest first), and the
  trace of calls made so far.
\<close>

record kstate =
  trigs :: "trig_id \<Rightarrow> iio_trigger"
  iio_trigger_list :: "trig_id list"
  pwms :: "pwm_id \<Rightarrow> pwm_state"
  iio_devs :: "iio_id \<Rightarrow> iio_dev"
  devres :: "dev_id \<Rightarrow> devm_action list"
  trace :: "kcall list"

text \<open>
  The C data model of the platform: \<^verbatim>\<open>long\<close> has 32 bits on a 32-bit kernel (ARM, the
  Pluto's Zynq) and 64 bits on a 64-bit one; \<^verbatim>\<open>int\<close> and \<^verbatim>\<open>u32\<close> have 32 bits and
  \<^verbatim>\<open>unsigned long long\<close> and \<^verbatim>\<open>u64\<close> have 64 bits on both.
\<close>

datatype abi = ILP32 | LP64

fun BITS_PER_LONG :: "abi \<Rightarrow> nat" where
  "BITS_PER_LONG ILP32 = 32"
| "BITS_PER_LONG LP64 = 64"

text \<open>
  What the driver cannot decide itself is a parameter: the data model of the platform,
  the firmware description of the devices, what is on the platform bus, and the return
  code of every kernel service that can fail (0 is success, a negative errno is failure).
\<close>

record kernel =
  k_abi :: abi
  k_property_present :: "dev_id \<Rightarrow> string \<Rightarrow> bool"
  k_find_reference :: "dev_id \<Rightarrow> string \<Rightarrow> nat \<Rightarrow> fwnode_id cptr"
  k_bus_find_device :: "fwnode_id cptr \<Rightarrow> dev_id cptr"
  k_devm_add_action :: "dev_id \<Rightarrow> devm_action \<Rightarrow> int"
  k_attach_buffer :: "iio_id \<Rightarrow> buf_id \<Rightarrow> int"
  k_pwm_config :: "pwm_id \<Rightarrow> int \<Rightarrow> int \<Rightarrow> int"
  k_pwm_enable :: "pwm_id \<Rightarrow> int"
  k_kzalloc :: "dev_id \<Rightarrow> bool"
  k_pwm_get :: "dev_id \<Rightarrow> int + pwm_id"
  k_buffer_alloc :: "dev_id \<Rightarrow> string \<Rightarrow> int + buf_id"
  k_trigger_alloc :: "dev_id \<Rightarrow> string \<Rightarrow> trig_id option"
  k_trigger_register :: "dev_id \<Rightarrow> trig_id \<Rightarrow> int"
  k_dev_name :: "dev_id \<Rightarrow> string"

text \<open>
  Where a service returns an object or an \<^verbatim>\<open>ERR_PTR\<close>, the errno in the error pointer
  is negative: \<^verbatim>\<open>IS_ERR\<close> holds of such pointers only.
\<close>

definition err_ptr_ok :: "int + 'a \<Rightarrow> bool" where
  "err_ptr_ok r = (case r of Inl e \<Rightarrow> e < 0 | Inr p \<Rightarrow> True)"

definition log :: "kcall \<Rightarrow> kstate \<Rightarrow> kstate" where
  "log c s = s\<lparr>trace := trace s @ [c]\<rparr>"

section \<open>Kernel services\<close>

subsection \<open>Firmware description and bus\<close>

definition device_property_present :: "kernel \<Rightarrow> kstate \<Rightarrow> dev_id \<Rightarrow> string \<Rightarrow> bool \<times> kstate" where
  "device_property_present k s dev propname =
     (k_property_present k dev propname, log (Device_property_present dev propname) s)"

definition fwnode_find_reference ::
  "kernel \<Rightarrow> kstate \<Rightarrow> dev_id \<Rightarrow> string \<Rightarrow> nat \<Rightarrow> fwnode_id cptr \<times> kstate" where
  "fwnode_find_reference k s dev propname index =
     (k_find_reference k dev propname index, log (Fwnode_find_reference dev propname index) s)"

definition bus_find_device_by_fwnode ::
  "kernel \<Rightarrow> kstate \<Rightarrow> fwnode_id cptr \<Rightarrow> dev_id cptr \<times> kstate" where
  "bus_find_device_by_fwnode k s fwnode =
     (k_bus_find_device k fwnode, log (Bus_find_device_by_fwnode fwnode) s)"

subsection \<open>Trigger references and the trigger registry\<close>

text \<open>
  Modelled from the spec: \<^verbatim>\<open>iio_trigger_get_drvdata\<close>, \<^verbatim>\<open>iio_trigger_get\<close> and
  \<^verbatim>\<open>iio_trigger_put\<close> are inline helpers of \<^verbatim>\<open>linux/iio/trigger.h\<close>, which is not among
  the sources. The first reads the driver data of the trigger; a consumer holds a
  reference-counted handle, so the other two move the reference count of the trigger
  up and down by one, and \<^verbatim>\<open>iio_trigger_get\<close> returns its argument.
\<close>

definition iio_trigger_get_drvdata :: "kstate \<Rightarrow> trig_id \<Rightarrow> axi_offload_pwm_trigger" where
  "iio_trigger_get_drvdata s trig = t_drvdata (trigs s trig)"

definition iio_trigger_get :: "kstate \<Rightarrow> trig_id \<Rightarrow> trig_id \<times> kstate" where
  "iio_trigger_get s trig =
     (trig, log (Iio_trigger_get trig)
        (s\<lparr>trigs := (trigs s)(trig := (trigs s trig)\<lparr>t_refcount := t_refcount (trigs s trig) + 1\<rparr>)\<rparr>))"

definition iio_trigger_put :: "kstate \<Rightarrow> trig_id \<Rightarrow> kstate" where
  "iio_trigger_put s trig =
     log (Iio_trigger_put trig)
       (s\<lparr>trigs := (trigs s)(trig := (trigs s trig)\<lparr>t_refcount := t_refcount (trigs s trig) - 1\<rparr>)\<rparr>)"

text \<open>
  Modelled from the spec: \<^verbatim>\<open>iio_trigger_acquire_by_parent\<close> belongs to the IIO core
  (\<^verbatim>\<open>drivers/iio/industrialio-trigger.c\<close>), which is not among the sources. It is the
  registry's \<^verbatim>\<open>acquire_by_owner(device) -> Trigger | None\<close>: the first registered trigger
  whose owner is the device, handed out as a reference-counted handle, or \<^verbatim>\<open>NULL\<close>.
\<close>

definition iio_trigger_find_by_parent :: "kstate \<Rightarrow> dev_id \<Rightarrow> trig_id option" where
  "iio_trigger_find_by_parent s parent =
     find (\<lambda>t. t_parent (trigs s t) = Some parent) (iio_trigger_list s)"

definition iio_trigger_acquire_by_parent :: "kstate \<Rightarrow> dev_id \<Rightarrow> trig_id option \<times> kstate" where
  "iio_trigger_acquire_by_parent s parent =
     (let s1 = log (Iio_trigger_acquire_by_parent parent) s in
      case iio_trigger_find_by_parent s1 parent of
        None \<Rightarrow> (None, s1)
      | Some t \<Rightarrow>
          (Some t, s1\<lparr>trigs := (trigs s1)(t := (trigs s1 t)\<lparr>t_refcount := t_refcount (trigs s1 t) + 1\<rparr>)\<rparr>))"

text \<open>
  Modelled from the spec: \<^verbatim>\<open>iio_trigger_unregister\<close>, the registry's deregistration on
  provider teardown (IIO core, not among the sources): the trigger leaves the list.
\<close>

definition iio_trigger_unregister :: "kstate \<Rightarrow> trig_id \<Rightarrow> kstate" where
  "iio_trigger_unregister s trig = s\<lparr>iio_trigger_list := removeAll trig (iio_trigger_list s)\<rparr>"

subsection \<open>The pulse source\<close>

text \<open>
  Modelled from the spec: the PWM consumer interface of \<^verbatim>\<open>linux/pwm.h\<close> is not among the
  sources. It is the Pulse Source Adapter with \<^verbatim>\<open>enable()\<close>, \<^verbatim>\<open>disable()\<close>,
  \<^verbatim>\<open>configure(duty, period)\<close> and \<^verbatim>\<open>get_period()\<close>: a configuration is applied as a
  whole or not at all, and the return code of the PWM core is a parameter.
\<close>

definition pwm_config :: "kernel \<Rightarrow> kstate \<Rightarrow> pwm_id \<Rightarrow> int \<Rightarrow> int \<Rightarrow> int \<times> kstate" where
  "pwm_config k s pwm duty_ns period_ns =
     (let s1 = log (Pwm_config pwm duty_ns period_ns) s;
          ret = k_pwm_config k pwm duty_ns period_ns
      in if ret \<noteq> 0 then (ret, s1)
         else (0, s1\<lparr>pwms := (pwms s1)(pwm := (pwms s1 pwm)
                 \<lparr>pwm_period := word_of_int period_ns, pwm_duty_cycle := word_of_int duty_ns\<rparr>)\<rparr>))"

definition pwm_enable :: "kernel \<Rightarrow> kstate \<Rightarrow> pwm_id \<Rightarrow> int \<times> kstate" where
  "pwm_enable k s pwm =
     (let s1 = log (Pwm_enable pwm) s;
          ret = k_pwm_enable k pwm
      in if ret \<noteq> 0 then (ret, s1)
         else (0, s1\<lparr>pwms := (pwms s1)(pwm := (pwms s1 pwm)\<lparr>pwm_enabled := True\<rparr>)\<rparr>))"

definition pwm_disable :: "kstate \<Rightarrow> pwm_id \<Rightarrow> kstate" where
  "pwm_disable s pwm =
     (let s1 = log (Pwm_disable pwm) s
      in s1\<lparr>pwms := (pwms s1)(pwm := (pwms s1 pwm)\<lparr>pwm_enabled := False\<rparr>)\<rparr>)"

definition pwm_get_period :: "kstate \<Rightarrow> pwm_id \<Rightarrow> 64 word" where
  "pwm_get_period s pwm = pwm_period (pwms s pwm)"

subsection \<open>Arithmetic macros\<close>

text \<open>
  The exact quotients the spec speaks of, on natural numbers: \<^verbatim>\<open>ceil(n / d)\<close> and
  \<^verbatim>\<open>round(x / d)\<close>, halves rounded up.
\<close>

definition ceil_div :: "nat \<Rightarrow> nat \<Rightarrow> nat" where
  "ceil_div n d = (n + d - 1) div d"

definition round_div :: "nat \<Rightarrow> nat \<Rightarrow> nat" where
  "round_div x d = (x + d div 2) div d"

text \<open>
  Modelled from the spec: \<^verbatim>\<open>NSEC_PER_SEC\<close>, \<^verbatim>\<open>DIV_ROUND_UP\<close> and \<^verbatim>\<open>DIV_ROUND_CLOSEST_ULL\<close>
  are macros of \<^verbatim>\<open>linux/time64.h\<close> and \<^verbatim>\<open>linux/math.h\<close>, which are not among the sources:
  \<^verbatim>\<open>period_ns = ceil(1e9 / requested_hz)\<close> and \<^verbatim>\<open>round(1e9 / period_ns)\<close>, in the machine
  arithmetic of the operands the driver gives them.

  \<^verbatim>\<open>DIV_ROUND_UP(n, d)\<close> is \<^verbatim>\<open>(n + d - 1) / d\<close> with \<^verbatim>\<open>n\<close> the \<^verbatim>\<open>long\<close> constant
  \<^verbatim>\<open>1000000000L\<close> and \<^verbatim>\<open>d\<close> a \<^verbatim>\<open>u32\<close>. With a 32-bit \<^verbatim>\<open>long\<close> both operands become
  \<^verbatim>\<open>unsigned long\<close> and the sum wraps modulo \<open>2 ^ 32\<close>; with a 64-bit \<^verbatim>\<open>long\<close> the sum is
  below \<open>2 ^ 33\<close> and nothing wraps.

  \<^verbatim>\<open>DIV_ROUND_CLOSEST_ULL(x, d)\<close> adds \<^verbatim>\<open>d / 2\<close> to \<^verbatim>\<open>x\<close> in \<^verbatim>\<open>unsigned long long\<close> and
  divides the sum with \<^verbatim>\<open>do_div\<close>, whose divisor is the low 32 bits of \<^verbatim>\<open>d\<close>. When these
  are all zero the division is one by zero, which has no defined result: \<open>None\<close>.
\<close>

definition NSEC_PER_SEC :: nat where "NSEC_PER_SEC = 1000000000"

definition DIV_ROUND_UP :: "abi \<Rightarrow> nat \<Rightarrow> nat \<Rightarrow> nat" where
  "DIV_ROUND_UP a n d = ((n + d - 1) mod 2 ^ BITS_PER_LONG a) div d"

definition DIV_ROUND_CLOSEST_ULL :: "nat \<Rightarrow> nat \<Rightarrow> nat option" where
  "DIV_ROUND_CLOSEST_ULL x d =
     (let tmp = (x + d div 2) mod 2 ^ 64;
          base = d mod 2 ^ 32
      in if base = 0 then None else Some (tmp div base))"

subsection \<open>Parsing and printing the rate attribute\<close>

text \<open>
  Modelled from the spec: \<^verbatim>\<open>kstrtou32\<close> (\<^verbatim>\<open>lib/kstrtox.c\<close>) and \<^verbatim>\<open>sysfs_emit\<close> with
  \<^verbatim>\<open>"%u\n"\<close> are not among the sources. The attribute is a text-encoded unsigned
  integer, newline-terminated: base 10 digits, after an optional plus sign and before an
  optional newline; no digits or anything else after them is \<^verbatim>\<open>-EINVAL\<close>, a value that
  does not fit the type is \<^verbatim>\<open>-ERANGE\<close>. The string is the C string up to its
  terminating zero byte.
\<close>

definition is_digit :: "char \<Rightarrow> bool" where
  "is_digit c = (48 \<le> (of_char c :: nat) \<and> (of_char c :: nat) \<le> 57)"

definition digit_val :: "char \<Rightarrow> nat" where
  "digit_val c = of_char c - 48"

definition parse_decimal :: "string \<Rightarrow> nat" where
  "parse_decimal ds = foldl (\<lambda>acc c. acc * 10 + digit_val c) 0 ds"

definition skip_plus :: "string \<Rightarrow> string" where
  "skip_plus buf = (case buf of [] \<Rightarrow> [] | c # cs \<Rightarrow> if c = CHR ''+'' then cs else buf)"

definition kstrtou32 :: "string \<Rightarrow> int + 32 word" where
  "kstrtou32 buf =
     (let s = skip_plus buf;
          ds = takeWhile is_digit s;
          rest = dropWhile is_digit s;
          v = parse_decimal ds
      in if 2 ^ 64 \<le> v then Inl (- ERANGE)
         else if ds = [] then Inl (- EINVAL)
         else if rest \<noteq> [] \<and> rest \<noteq> [CHR 0x0A] then Inl (- EINVAL)
         else if 2 ^ 32 \<le> v then Inl (- ERANGE)
         else Inr (word_of_nat v))"

text \<open>
  A payload that is a number in the sense of the attribute: digits, and nothing else but
  a plus sign before them and a newline after them.
\<close>

definition numeric_payload :: "string \<Rightarrow> bool" where
  "numeric_payload buf =
     (let s = skip_plus buf;
          body = (if s \<noteq> [] \<and> last s = CHR 0x0A then butlast s else s)
      in body \<noteq> [] \<and> list_all is_digit body)"

function print_decimal :: "nat \<Rightarrow> string" where
  "print_decimal n =
     (if n < 10 then [''0123456789'' ! n]
      else print_decimal (n div 10) @ [''0123456789'' ! (n mod 10)])"
  by pat_completeness auto
termination
  by (relation "measure (\<lambda>n. n)") auto

declare print_decimal.simps [simp del]

subsection \<open>Release actions bound to a device\<close>

text \<open>The two release callbacks of the driver.\<close>

definition axi_spi_engine_offload_pwm_trigger_release :: "kstate \<Rightarrow> trig_id \<Rightarrow> kstate" where
  "axi_spi_engine_offload_pwm_trigger_release s trig = iio_trigger_put s trig"

definition axi_offload_pwm_trigger_pwm_disable :: "kstate \<Rightarrow> pwm_id \<Rightarrow> kstate" where
  "axi_offload_pwm_trigger_pwm_disable s pwm = pwm_disable s pwm"

fun devm_action_run :: "kstate \<Rightarrow> devm_action \<Rightarrow> kstate" where
  "devm_action_run s (Trigger_release trig) = axi_spi_engine_offload_pwm_trigger_release s trig"
| "devm_action_run s (Pwm_disable_action pwm) = axi_offload_pwm_trigger_pwm_disable s pwm"
| "devm_action_run s (Trigger_unregister trig) = iio_trigger_unregister s trig"

text \<open>
  Modelled from the spec: \<^verbatim>\<open>devm_add_action_or_reset\<close> (\<^verbatim>\<open>linux/device.h\<close>) and the
  teardown of a device's managed resources (\<^verbatim>\<open>drivers/base/devres.c\<close>) are not among the
  sources. A release action is registered with the lifecycle of a device and runs when
  the device is torn down, the actions in reverse order of their registration. The
  driver tests the return code of the registration, which is a parameter; when the
  registration fails the action runs at once, as the name of the helper says, and
  nothing is registered.
\<close>

definition devm_add_action_or_reset ::
  "kernel \<Rightarrow> kstate \<Rightarrow> dev_id \<Rightarrow> devm_action \<Rightarrow> int \<times> kstate" where
  "devm_add_action_or_reset k s dev action =
     (let s1 = log (Devm_add_action_or_reset dev action) s;
          ret = k_devm_add_action k dev action
      in if ret \<noteq> 0 then (ret, devm_action_run s1 action)
         else (0, s1\<lparr>devres := (devres s1)(dev := action # devres s1 dev)\<rparr>))"

fun devm_actions_run :: "kstate \<Rightarrow> devm_action list \<Rightarrow> kstate" where
  "devm_actions_run s [] = s"
| "devm_actions_run s (a # as) = devm_actions_run (devm_action_run s a) as"

definition devres_release_all :: "kstate \<Rightarrow> dev_id \<Rightarrow> kstate" where
  "devres_release_all s dev =
     devm_actions_run (s\<lparr>devres := (devres s)(dev := [])\<rparr>) (devres s dev)"

subsection \<open>Attaching a buffer, allocation and registration\<close>

text \<open>
  Modelled from the spec: \<^verbatim>\<open>iio_device_attach_buffer\<close> (IIO core), the allocators
  \<^verbatim>\<open>devm_kzalloc\<close>, \<^verbatim>\<open>devm_pwm_get\<close>, \<^verbatim>\<open>devm_iio_dmaengine_buffer_alloc\<close> and
  \<^verbatim>\<open>devm_iio_trigger_alloc\<close>, and \<^verbatim>\<open>devm_iio_trigger_register\<close> are not among the sources.
  Attaching adds the buffer to the buffers of the consumer device; an allocator hands out
  an object or fails; a new trigger has no operations table, no parent and one reference;
  \<^verbatim>\<open>register(trigger)\<close> puts the trigger into the registry, where consumers find it, and
  has it taken out again when the provider is torn down. Every return code is a parameter.
\<close>

definition iio_device_attach_buffer :: "kernel \<Rightarrow> kstate \<Rightarrow> iio_id \<Rightarrow> buf_id \<Rightarrow> int \<times> kstate" where
  "iio_device_attach_buffer k s indio_dev buffer =
     (let s1 = log (Iio_device_attach_buffer indio_dev buffer) s;
          ret = k_attach_buffer k indio_dev buffer
      in if ret \<noteq> 0 then (ret, s1)
         else (0, s1\<lparr>iio_devs := (iio_devs s1)(indio_dev := (iio_devs s1 indio_dev)
                 \<lparr>indio_buffers := indio_buffers (iio_devs s1 indio_dev) @ [buffer]\<rparr>)\<rparr>))"

definition devm_kzalloc :: "kernel \<Rightarrow> kstate \<Rightarrow> dev_id \<Rightarrow> bool \<times> kstate" where
  "devm_kzalloc k s dev = (k_kzalloc k dev, log (Devm_kzalloc dev) s)"

definition devm_pwm_get :: "kernel \<Rightarrow> kstate \<Rightarrow> dev_id \<Rightarrow> (int + pwm_id) \<times> kstate" where
  "devm_pwm_get k s dev = (k_pwm_get k dev, log (Devm_pwm_get dev) s)"

definition devm_iio_dmaengine_buffer_alloc ::
  "kernel \<Rightarrow> kstate \<Rightarrow> dev_id \<Rightarrow> string \<Rightarrow> (int + buf_id) \<times> kstate" where
  "devm_iio_dmaengine_buffer_alloc k s dev channel =
     (k_buffer_alloc k dev channel, log (Devm_iio_dmaengine_buffer_alloc dev channel) s)"

definition devm_iio_trigger_alloc ::
  "kernel \<Rightarrow> kstate \<Rightarrow> dev_id \<Rightarrow> string \<Rightarrow> trig_id option \<times> kstate" where
  "devm_iio_trigger_alloc k s dev name =
     (let s1 = log (Devm_iio_trigger_alloc dev name) s in
      case k_trigger_alloc k dev name of
        None \<Rightarrow> (None, s1)
      | Some t \<Rightarrow>
          (Some t, s1\<lparr>trigs := (trigs s1)(t := (trigs s1 t)
             \<lparr>t_name := name, t_ops := NULL_ops, t_parent := None, t_groups := [],
              t_refcount := 1\<rparr>)\<rparr>))"

definition devm_iio_trigger_register :: "kernel \<Rightarrow> kstate \<Rightarrow> dev_id \<Rightarrow> trig_id \<Rightarrow> int \<times> kstate" where
  "devm_iio_trigger_register k s dev trig =
     (let s1 = log (Devm_iio_trigger_register dev trig) s;
          ret = k_trigger_register k dev trig
      in if ret \<noteq> 0 then (ret, s1)
         else (0, s1\<lparr>iio_trigger_list := iio_trigger_list s1 @ [trig],
                     devres := (devres s1)(dev := Trigger_unregister trig # devres s1 dev)\<rparr>))"

definition dev_err_probe :: "int \<Rightarrow> int" where
  "dev_err_probe err = err"

section \<open>The driver\<close>

subsection \<open>Discovery: \<^verbatim>\<open>devm_axi_spi_engine_offload_pwm_trigger_get_optional\<close>\<close>

definition devm_axi_spi_engine_offload_pwm_trigger_get_optional ::
  "kernel \<Rightarrow> kstate \<Rightarrow> dev_id \<Rightarrow> trig_id cptr \<times> kstate" where
  "devm_axi_spi_engine_offload_pwm_trigger_get_optional k s dev =
     (case device_property_present k s dev ''adi,offloads'' of
        (False, s1) \<Rightarrow> (NULL, s1)
      | (True, s1) \<Rightarrow>
     (case fwnode_find_reference k s1 dev ''adi,offloads'' 0 of (offload, s2) \<Rightarrow>
      if IS_ERR offload then (ERR_CAST offload, s2) else
     (case bus_find_device_by_fwnode k s2 offload of
        (ERR_PTR e, s3) \<Rightarrow> (ERR_PTR e, s3)
      | (NULL, s3) \<Rightarrow> (ERR_PTR (- EPROBE_DEFER), s3)
      | (PTR offload_dev, s3) \<Rightarrow>
     (case iio_trigger_acquire_by_parent s3 offload_dev of
        (None, s4) \<Rightarrow> (ERR_PTR (- EPROBE_DEFER), s4)
      | (Some trig, s4) \<Rightarrow>
     (case devm_add_action_or_reset k s4 dev (Trigger_release trig) of (ret, s5) \<Rightarrow>
      if ret \<noteq> 0 then (ERR_PTR ret, s5)
      else if t_ops (trigs s5 trig) \<noteq> axi_offload_pwm_trigger_ops then (ERR_PTR (- EINVAL), s5)
      else (PTR trig, s5))))))"

subsection \<open>Attachment: \<^verbatim>\<open>axi_spi_engine_offload_pwm_trigger_setup\<close>\<close>

definition axi_spi_engine_offload_pwm_trigger_setup ::
  "kernel \<Rightarrow> kstate \<Rightarrow> iio_id \<Rightarrow> trig_id \<Rightarrow> int \<times> kstate" where
  "axi_spi_engine_offload_pwm_trigger_setup k s indio_dev trig =
     (let st = iio_trigger_get_drvdata s trig in
      if t_ops (trigs s trig) \<noteq> axi_offload_pwm_trigger_ops then (- EINVAL, s)
      else
        let s1 = s\<lparr>iio_devs := (iio_devs s)(indio_dev := (iio_devs s indio_dev)
                    \<lparr>indio_modes := indio_modes (iio_devs s indio_dev)
                        OR (INDIO_BUFFER_HARDWARE OR INDIO_HARDWARE_TRIGGERED)\<rparr>)\<rparr>
        in case iio_trigger_get s1 trig of (got, s2) \<Rightarrow>
        let s3 = s2\<lparr>iio_devs := (iio_devs s2)(indio_dev := (iio_devs s2 indio_dev)
                    \<lparr>indio_trig := Some got\<rparr>)\<rparr>
        in iio_device_attach_buffer k s3 indio_dev (st_buffer st))"

subsection \<open>The trigger operations\<close>

definition axi_offload_pwm_trigger_set_state ::
  "kernel \<Rightarrow> kstate \<Rightarrow> trig_id \<Rightarrow> bool \<Rightarrow> int \<times> kstate" where
  "axi_offload_pwm_trigger_set_state k s trig state =
     (let st = iio_trigger_get_drvdata s trig in
      if state then pwm_enable k s (st_pwm st)
      else (0, pwm_disable s (st_pwm st)))"

definition axi_offload_pwm_trigger_validate_device :: "trig_id \<Rightarrow> iio_id \<Rightarrow> int" where
  "axi_offload_pwm_trigger_validate_device trig indio_dev = - EINVAL"

text \<open>
  The operations table \<^verbatim>\<open>axi_offload_pwm_trigger_ops\<close>: the two callbacks the driver
  installs. (The datatype \<open>iio_trigger_ops\<close> above holds the address of the table, this
  record its content.)
\<close>

record iio_trigger_callbacks =
  set_trigger_state :: "kernel \<Rightarrow> kstate \<Rightarrow> trig_id \<Rightarrow> bool \<Rightarrow> int \<times> kstate"
  validate_device :: "trig_id \<Rightarrow> iio_id \<Rightarrow> int"

definition axi_offload_pwm_trigger_ops_table :: iio_trigger_callbacks where
  "axi_offload_pwm_trigger_ops_table =
     \<lparr>set_trigger_state = axi_offload_pwm_trigger_set_state,
      validate_device = axi_offload_pwm_trigger_validate_device\<rparr>"

subsection \<open>The rate controller\<close>

text \<open>
  The rate read back is a \<^verbatim>\<open>u32\<close>: the quotient of the macro cut to 32 bits. It is
  \<open>None\<close> where the macro divides by zero. The period that the rate controller stores in
  its \<^verbatim>\<open>int period_ns\<close> is below \<open>2 ^ 31\<close> for every frequency (lemma
  \<open>DIV_ROUND_UP_fits_int\<close>), so the conversion to \<^verbatim>\<open>int\<close> keeps its value.
\<close>

definition axi_spi_engine_offload_pwm_trigger_get_rate :: "kstate \<Rightarrow> trig_id \<Rightarrow> 32 word option" where
  "axi_spi_engine_offload_pwm_trigger_get_rate s trig =
     (let st = iio_trigger_get_drvdata s trig;
          period_ns = pwm_get_period s (st_pwm st)
      in if period_ns \<noteq> 0
         then map_option word_of_nat (DIV_ROUND_CLOSEST_ULL NSEC_PER_SEC (unat period_ns))
         else Some 0)"

definition axi_spi_engine_offload_set_samp_freq ::
  "kernel \<Rightarrow> kstate \<Rightarrow> axi_offload_pwm_trigger \<Rightarrow> 32 word \<Rightarrow> int \<times> kstate" where
  "axi_spi_engine_offload_set_samp_freq k s st requested_hz =
     (if requested_hz = 0 then (- EINVAL, s)
      else
        let period_ns = int (DIV_ROUND_UP (k_abi k) NSEC_PER_SEC (unat requested_hz))
        in pwm_config k s (st_pwm st) 10 period_ns)"

text \<open>
  \<^verbatim>\<open>sampling_frequency_show\<close> is modelled by the text it writes to the buffer, whose
  length is its return value (\<open>None\<close> where the rate has no defined value);
  \<^verbatim>\<open>sampling_frequency_store\<close> takes the trigger that
  \<^verbatim>\<open>to_iio_trigger(dev)\<close> yields and returns \<^verbatim>\<open>len\<close> or a negative errno.
\<close>

definition sampling_frequency_show :: "kstate \<Rightarrow> trig_id \<Rightarrow> string option" where
  "sampling_frequency_show s trig =
     map_option (\<lambda>rate. print_decimal (unat rate) @ [CHR 0x0A])
       (axi_spi_engine_offload_pwm_trigger_get_rate s trig)"

definition sampling_frequency_store ::
  "kernel \<Rightarrow> kstate \<Rightarrow> trig_id \<Rightarrow> string \<Rightarrow> nat \<Rightarrow> int \<times> kstate" where
  "sampling_frequency_store k s trig buf len =
     (let st = iio_trigger_get_drvdata s trig in
      case kstrtou32 buf of
        Inl ret \<Rightarrow> (ret, s)
      | Inr val \<Rightarrow>
          (case axi_spi_engine_offload_set_samp_freq k s st val of (ret, s1) \<Rightarrow>
             if ret \<noteq> 0 then (ret, s1) else (int len, s1)))"

subsection \<open>Provider initialisation: \<^verbatim>\<open>axi_offload_pwm_trigger_probe\<close>\<close>

definition axi_offload_pwm_trigger_groups :: "string list" where
  "axi_offload_pwm_trigger_groups = [''sampling_frequency'']"

text \<open>The name of the trigger, \<^verbatim>\<open>"%s-%s-pwm-trigger"\<close> of the names of the parent and of the device.\<close>

definition trigger_name :: "kernel \<Rightarrow> platform_device \<Rightarrow> string" where
  "trigger_name k pdev =
     k_dev_name k (pdev_parent pdev) @ ''-'' @ k_dev_name k (pdev_dev pdev) @ ''-pwm-trigger''"

definition axi_offload_pwm_trigger_probe :: "kernel \<Rightarrow> kstate \<Rightarrow> platform_device \<Rightarrow> int \<times> kstate" where
  "axi_offload_pwm_trigger_probe k s pdev =
     (case devm_kzalloc k s (pdev_dev pdev) of
        (False, s1) \<Rightarrow> (- ENOMEM, s1)
      | (True, s1) \<Rightarrow>
     (case devm_pwm_get k s1 (pdev_dev pdev) of
        (Inl e, s2) \<Rightarrow> (dev_err_probe e, s2)
      | (Inr pwm, s2) \<Rightarrow>
     (case devm_iio_dmaengine_buffer_alloc k s2 (pdev_dev pdev) ''rx'' of
        (Inl e, s3) \<Rightarrow> (dev_err_probe e, s3)
      | (Inr buffer, s3) \<Rightarrow>
     (let st = \<lparr>st_buffer = buffer, st_pwm = pwm\<rparr> in
      case devm_iio_trigger_alloc k s3 (pdev_dev pdev) (trigger_name k pdev) of
        (None, s4) \<Rightarrow> (- ENOMEM, s4)
      | (Some trig, s4) \<Rightarrow>
     (let s5 = s4\<lparr>trigs := (trigs s4)(trig := (trigs s4 trig)
                   \<lparr>t_ops := axi_offload_pwm_trigger_ops, t_parent := Some (pdev_dev pdev),
                    t_groups := axi_offload_pwm_trigger_groups, t_drvdata := st\<rparr>)\<rparr>
      in case axi_spi_engine_offload_set_samp_freq k s5 st 1000 of (ret, s6) \<Rightarrow>
      if ret \<noteq> 0 then (dev_err_probe ret, s6) else
     (case pwm_enable k s6 (st_pwm st) of (ret, s7) \<Rightarrow>
      if ret \<noteq> 0 then (dev_err_probe ret, s7) else
     (case devm_add_action_or_reset k s7 (pdev_dev pdev) (Pwm_disable_action (st_pwm st)) of (ret, s8) \<Rightarrow>
      if ret \<noteq> 0 then (ret, s8)
      else devm_iio_trigger_register k s8 (pdev_dev pdev) trig)))))))"

section \<open>Example configurations\<close>

text \<open>
  A provider device 2 with firmware node 3, PWM 4, buffer 5 and registered trigger 7, a
  consumer device 1 whose \<^verbatim>\<open>adi,offloads\<close> property refers to the provider, and an IIO
  device 6 of the consumer. Variations of it: the property missing, the provider not yet
  on the bus, no trigger registered, a foreign trigger registered on the provider, a
  stopped pulse source, pulse sources with periods of \<open>2 ^ 32 + 2\<close> and \<open>2 ^ 32\<close>
  nanoseconds, a provider about to be probed, a kernel with a 32-bit \<^verbatim>\<open>long\<close>, and
  kernels in which registering a release action or attaching a buffer fails for lack of
  memory or the PWM core rejects a request.
\<close>

definition example_trigger :: iio_trigger where
  "example_trigger =
     \<lparr>t_name = ''spi0-offload0-pwm-trigger'', t_ops = axi_offload_pwm_trigger_ops,
      t_parent = Some 2, t_groups = axi_offload_pwm_trigger_groups,
      t_drvdata = \<lparr>st_buffer = 5, st_pwm = 4\<rparr>, t_refcount = 1\<rparr>"

definition example_state :: kstate where
  "example_state =
     \<lparr>trigs = (\<lambda>t. example_trigger), iio_trigger_list = [7],
      pwms = (\<lambda>p. \<lparr>pwm_period = 1000000, pwm_duty_cycle = 10, pwm_enabled = True\<rparr>),
      iio_devs = (\<lambda>d. \<lparr>indio_modes = 1, indio_trig = None, indio_buffers = []\<rparr>),
      devres = (\<lambda>d. []), trace = []\<rparr>"

definition foreign_state :: kstate where
  "foreign_state = example_state\<lparr>trigs := (\<lambda>t. example_trigger\<lparr>t_ops := foreign_ops 1\<rparr>)\<rparr>"

definition unregistered_state :: kstate where
  "unregistered_state = example_state\<lparr>iio_trigger_list := []\<rparr>"

definition stopped_state :: kstate where
  "stopped_state = example_state
     \<lparr>pwms := (\<lambda>p. \<lparr>pwm_period = 0, pwm_duty_cycle = 0, pwm_enabled = False\<rparr>)\<rparr>"

definition probe_state :: kstate where
  "probe_state = example_state
     \<lparr>iio_trigger_list := [], trigs := (\<lambda>t. example_trigger\<lparr>t_parent := None\<rparr>)\<rparr>"

definition example_pdev :: platform_device where
  "example_pdev = \<lparr>pdev_dev = 2, pdev_parent = 0\<rparr>"

definition example_kernel :: kernel where
  "example_kernel =
     \<lparr>k_abi = LP64,
      k_property_present = (\<lambda>dev p. True), k_find_reference = (\<lambda>dev p i. PTR 3),
      k_bus_find_device = (\<lambda>fw. PTR 2), k_devm_add_action = (\<lambda>dev a. 0),
      k_attach_buffer = (\<lambda>d b. 0), k_pwm_config = (\<lambda>p d n. 0), k_pwm_enable = (\<lambda>p. 0),
      k_kzalloc = (\<lambda>dev. True), k_pwm_get = (\<lambda>dev. Inr 4), k_buffer_alloc = (\<lambda>dev c. Inr 5),
      k_trigger_alloc = (\<lambda>dev n. Some 7), k_trigger_register = (\<lambda>dev t. 0),
      k_dev_name = (\<lambda>dev. ''dev'')\<rparr>"

definition absent_kernel :: kernel where
  "absent_kernel = example_kernel\<lparr>k_property_present := (\<lambda>dev p. False)\<rparr>"

definition unprobed_kernel :: kernel where
  "unprobed_kernel = example_kernel\<lparr>k_bus_find_device := (\<lambda>fw. NULL)\<rparr>"

definition no_memory_kernel :: kernel where
  "no_memory_kernel = example_kernel\<lparr>k_devm_add_action := (\<lambda>dev a. - ENOMEM)\<rparr>"

definition failing_pwm_kernel :: kernel where
  "failing_pwm_kernel = example_kernel\<lparr>k_pwm_config := (\<lambda>p d n. - EINVAL)\<rparr>"

definition failing_enable_kernel :: kernel where
  "failing_enable_kernel = example_kernel\<lparr>k_pwm_enable := (\<lambda>p. - EINVAL)\<rparr>"

definition no_attach_kernel :: kernel where
  "no_attach_kernel = example_kernel\<lparr>k_attach_buffer := (\<lambda>d b. - ENOMEM)\<rparr>"

definition ilp32_kernel :: kernel where
  "ilp32_kernel = example_kernel\<lparr>k_abi := ILP32\<rparr>"

definition long_period_state :: kstate where
  "long_period_state = example_state
     \<lparr>pwms := (\<lambda>p. \<lparr>pwm_period = 4294967298, pwm_duty_cycle = 10, pwm_enabled = True\<rparr>)\<rparr>"

definition period_2_32_state :: kstate where
  "period_2_32_state = example_state
     \<lparr>pwms := (\<lambda>p. \<lparr>pwm_period = 4294967296, pwm_duty_cycle = 10, pwm_enabled = True\<rparr>)\<rparr>"

definition example_state_500 :: kstate where
  "example_state_500 =
     snd (axi_spi_engine_offload_set_samp_freq example_kernel example_state
       (iio_trigger_get_drvdata example_state 7) 500)"

lemmas example_defs =
  example_trigger_def example_state_def foreign_state_def unregistered_state_def
  stopped_state_def
  example_kernel_def absent_kernel_def unprobed_kernel_def no_memory_kernel_def
  long_period_state_def period_2_32_state_def

section \<open>Properties of discovery\<close>

lemma errno_values:
  "EINVAL \<noteq> 0" "ENOMEM \<noteq> 0" "EPROBE_DEFER \<noteq> 0" "ERANGE \<noteq> 0"
  "ENOMEM \<noteq> EINVAL" "EPROBE_DEFER \<noteq> EINVAL"
  by (simp_all add: EINVAL_def ENOMEM_def EPROBE_DEFER_def ERANGE_def)

lemma find_log: "iio_trigger_find_by_parent (log c s) d = iio_trigger_find_by_parent s d"
  by (simp add: iio_trigger_find_by_parent_def log_def)

lemma acquire_found:
  "iio_trigger_find_by_parent s od = Some t \<Longrightarrow>
   iio_trigger_acquire_by_parent s od =
     (Some t, s\<lparr>trigs := (trigs s)(t := (trigs s t)\<lparr>t_refcount := t_refcount (trigs s t) + 1\<rparr>),
               trace := trace s @ [Iio_trigger_acquire_by_parent od]\<rparr>)"
  by (simp add: iio_trigger_acquire_by_parent_def find_log Let_def) (simp add: log_def)

text \<open>
  C7: a consumer device without the \<^verbatim>\<open>adi,offloads\<close> property gets \<^verbatim>\<open>NULL\<close>, which is
  not an error pointer; the only call made is the test of the property, so there is no
  reference resolution, no bus lookup and no registry query, and nothing else of the
  state changes.
\<close>

theorem get_optional_property_absent:
  assumes "\<not> k_property_present k dev ''adi,offloads''"
  shows "devm_axi_spi_engine_offload_pwm_trigger_get_optional k s dev =
           (NULL, s\<lparr>trace := trace s @ [Device_property_present dev ''adi,offloads'']\<rparr>) \<and>
         \<not> IS_ERR (fst (devm_axi_spi_engine_offload_pwm_trigger_get_optional k s dev))"
  using assms
  by (simp add: devm_axi_spi_engine_offload_pwm_trigger_get_optional_def
      device_property_present_def log_def IS_ERR_def)

theorem get_optional_property_absent_witness:
  "\<not> k_property_present absent_kernel 1 ''adi,offloads'' \<and>
   devm_axi_spi_engine_offload_pwm_trigger_get_optional absent_kernel example_state 1 =
     (NULL, example_state\<lparr>trace := [Device_property_present 1 ''adi,offloads'']\<rparr>)"
proof -
  have h: "\<not> k_property_present absent_kernel 1 ''adi,offloads''"
    by (simp add: absent_kernel_def example_kernel_def)
  have "trace example_state = []"
    by (simp add: example_state_def)
  then show ?thesis
    using h get_optional_property_absent [OF h, of example_state] by simp
qed

text \<open>
  C2: when the property is there and the reference resolves to a firmware node, but the
  bus has no device for that node, or it has one and the registry holds no trigger owned
  by it, the call returns \<^verbatim>\<open>ERR_PTR(-EPROBE_DEFER)\<close>: an error pointer, so not \<^verbatim>\<open>NULL\<close>,
  and not the hard error \<^verbatim>\<open>-EINVAL\<close>.
\<close>

theorem get_optional_deferred:
  assumes "k_property_present k dev ''adi,offloads''"
    and "k_find_reference k dev ''adi,offloads'' 0 = PTR fw"
    and "k_bus_find_device k (PTR fw) = NULL \<or>
         (\<exists>od. k_bus_find_device k (PTR fw) = PTR od \<and> iio_trigger_find_by_parent s od = None)"
  shows "fst (devm_axi_spi_engine_offload_pwm_trigger_get_optional k s dev) = ERR_PTR (- EPROBE_DEFER) \<and>
         ERR_PTR (- EPROBE_DEFER) \<noteq> (NULL :: trig_id cptr) \<and> - EPROBE_DEFER \<noteq> - EINVAL"
  using assms
  by (auto simp add: devm_axi_spi_engine_offload_pwm_trigger_get_optional_def
      device_property_present_def fwnode_find_reference_def bus_find_device_by_fwnode_def
      iio_trigger_acquire_by_parent_def find_log IS_ERR_def Let_def errno_values)

theorem get_optional_deferred_witness:
  "k_property_present unprobed_kernel 1 ''adi,offloads'' \<and>
   k_find_reference unprobed_kernel 1 ''adi,offloads'' 0 = PTR 3 \<and>
   k_bus_find_device unprobed_kernel (PTR 3) = NULL \<and>
   fst (devm_axi_spi_engine_offload_pwm_trigger_get_optional unprobed_kernel example_state 1) =
     ERR_PTR (- 517) \<and>
   k_property_present example_kernel 1 ''adi,offloads'' \<and>
   k_find_reference example_kernel 1 ''adi,offloads'' 0 = PTR 3 \<and>
   k_bus_find_device example_kernel (PTR 3) = PTR 2 \<and>
   iio_trigger_find_by_parent unregistered_state 2 = None \<and>
   fst (devm_axi_spi_engine_offload_pwm_trigger_get_optional example_kernel unregistered_state 1) =
     ERR_PTR (- 517)"
proof -
  have h1: "k_property_present unprobed_kernel 1 ''adi,offloads''"
    and h2: "k_find_reference unprobed_kernel 1 ''adi,offloads'' 0 = PTR 3"
    and h3: "k_bus_find_device unprobed_kernel (PTR 3) = NULL"
    by (simp_all add: unprobed_kernel_def example_kernel_def)
  have g1: "k_property_present example_kernel 1 ''adi,offloads''"
    and g2: "k_find_reference example_kernel 1 ''adi,offloads'' 0 = PTR 3"
    and g3: "k_bus_find_device example_kernel (PTR 3) = PTR 2"
    and g4: "iio_trigger_find_by_parent unregistered_state 2 = None"
    by (simp_all add: example_kernel_def unregistered_state_def iio_trigger_find_by_parent_def)
  have g: "k_bus_find_device example_kernel (PTR 3) = NULL \<or>
      (\<exists>od. k_bus_find_device example_kernel (PTR 3) = PTR od \<and>
            iio_trigger_find_by_parent unregistered_state od = None)"
    using g3 g4 by simp
  show ?thesis
    using h1 h2 h3 g1 g2 g3 g4
      get_optional_deferred [OF h1 h2 disjI1 [OF h3], of example_state]
      get_optional_deferred [OF g1 g2 g]
    by (simp add: EPROBE_DEFER_def)
qed

lemma get_optional_found:
  assumes "k_property_present k dev ''adi,offloads''"
    and "\<not> IS_ERR (k_find_reference k dev ''adi,offloads'' 0)"
    and "k_bus_find_device k (k_find_reference k dev ''adi,offloads'' 0) = PTR od"
    and "iio_trigger_find_by_parent s od = Some t"
  shows "devm_axi_spi_engine_offload_pwm_trigger_get_optional k s dev =
     (case devm_add_action_or_reset k
        (s\<lparr>trigs := (trigs s)(t := (trigs s t)\<lparr>t_refcount := t_refcount (trigs s t) + 1\<rparr>),
           trace := trace s @ [Device_property_present dev ''adi,offloads'',
             Fwnode_find_reference dev ''adi,offloads'' 0,
             Bus_find_device_by_fwnode (k_find_reference k dev ''adi,offloads'' 0),
             Iio_trigger_acquire_by_parent od]\<rparr>) dev (Trigger_release t) of (ret, s5) \<Rightarrow>
      if ret \<noteq> 0 then (ERR_PTR ret, s5)
      else if t_ops (trigs s5 t) \<noteq> axi_offload_pwm_trigger_ops then (ERR_PTR (- EINVAL), s5)
      else (PTR t, s5))"
proof -
  let ?s3 = "log (Bus_find_device_by_fwnode (k_find_reference k dev ''adi,offloads'' 0))
     (log (Fwnode_find_reference dev ''adi,offloads'' 0)
        (log (Device_property_present dev ''adi,offloads'') s))"
  have f: "iio_trigger_find_by_parent ?s3 od = Some t"
    using assms(4) by (simp add: find_log)
  show ?thesis
    using assms(1-3)
    by (simp add: devm_axi_spi_engine_offload_pwm_trigger_get_optional_def
        device_property_present_def fwnode_find_reference_def bus_find_device_by_fwnode_def
        acquire_found [OF f])
      (simp add: log_def)
qed

lemma example_lookup:
  "k_property_present example_kernel 1 ''adi,offloads''"
  "\<not> IS_ERR (k_find_reference example_kernel 1 ''adi,offloads'' 0)"
  "k_bus_find_device example_kernel (k_find_reference example_kernel 1 ''adi,offloads'' 0) = PTR 2"
  "k_property_present no_memory_kernel 1 ''adi,offloads''"
  "\<not> IS_ERR (k_find_reference no_memory_kernel 1 ''adi,offloads'' 0)"
  "k_bus_find_device no_memory_kernel (k_find_reference no_memory_kernel 1 ''adi,offloads'' 0) = PTR 2"
  "iio_trigger_find_by_parent example_state 2 = Some 7"
  "iio_trigger_find_by_parent foreign_state 2 = Some 7"
  by (simp_all add: example_defs IS_ERR_def iio_trigger_find_by_parent_def)




subsection \<open>The release action of an acquired trigger\<close>

lemma put_after_get:
  "trigs (iio_trigger_put
     (s\<lparr>trigs := (trigs s)(t := (trigs s t)\<lparr>t_refcount := t_refcount (trigs s t) + 1\<rparr>),
        trace := tr\<rparr>) t) = trigs s"
  by (simp add: iio_trigger_put_def log_def)

lemma devm_action_run_trigs:
  "trigs (devm_action_run s a) =
     (case a of
        Trigger_release t \<Rightarrow> (trigs s)(t := (trigs s t)\<lparr>t_refcount := t_refcount (trigs s t) - 1\<rparr>)
      | _ \<Rightarrow> trigs s)"
  by (cases a)
    (simp_all add: axi_spi_engine_offload_pwm_trigger_release_def iio_trigger_put_def log_def
      axi_offload_pwm_trigger_pwm_disable_def pwm_disable_def iio_trigger_unregister_def Let_def)

lemma devm_action_run_cong:
  "trigs s = trigs s0 \<Longrightarrow> trigs (devm_action_run s a) = trigs (devm_action_run s0 a)"
  by (simp only: devm_action_run_trigs)

lemma devm_actions_run_trigs:
  "trigs s = trigs s0 \<Longrightarrow> trigs (devm_actions_run s as) = trigs (devm_actions_run s0 as)"
proof (induction as arbitrary: s s0)
  case Nil
  then show ?case by (simp only: devm_actions_run.simps)
next
  case (Cons a as)
  show ?case
    unfolding devm_actions_run.simps
    by (rule Cons.IH) (rule devm_action_run_cong [OF Cons.prems])
qed

text \<open>
  C8 (as amended): in every discovery call that acquires a trigger from the registry,
  the next call is \<^verbatim>\<open>devm_add_action_or_reset\<close> with the release action of that trigger
  on the consumer device, before the operations table is compared. When it succeeds, the
  action heads the release actions of the consumer, the trigger holds one more
  reference, and the call returns the trigger or, for a foreign trigger,
  \<^verbatim>\<open>ERR_PTR(-EINVAL)\<close>: on both paths the teardown of the consumer gives the reference
  back. When it fails, its errno is returned, nothing is registered, and the release has
  run at once. In every case the teardown of the consumer leaves the triggers as a
  teardown without the call would.
\<close>

theorem get_optional_release_action:
  assumes "k_property_present k dev ''adi,offloads''"
    and "\<not> IS_ERR (k_find_reference k dev ''adi,offloads'' 0)"
    and "k_bus_find_device k (k_find_reference k dev ''adi,offloads'' 0) = PTR od"
    and "iio_trigger_find_by_parent s od = Some t"
    and "devm_axi_spi_engine_offload_pwm_trigger_get_optional k s dev = (r, s')"
  shows "trace s' = trace s @
       [Device_property_present dev ''adi,offloads'', Fwnode_find_reference dev ''adi,offloads'' 0,
        Bus_find_device_by_fwnode (k_find_reference k dev ''adi,offloads'' 0),
        Iio_trigger_acquire_by_parent od, Devm_add_action_or_reset dev (Trigger_release t)] @
       (if k_devm_add_action k dev (Trigger_release t) = 0 then [] else [Iio_trigger_put t]) \<and>
    (k_devm_add_action k dev (Trigger_release t) = 0 \<longrightarrow>
       devres s' dev = Trigger_release t # devres s dev \<and>
       t_refcount (trigs s' t) = t_refcount (trigs s t) + 1 \<and>
       r = (if t_ops (trigs s t) \<noteq> axi_offload_pwm_trigger_ops then ERR_PTR (- EINVAL) else PTR t)) \<and>
    (k_devm_add_action k dev (Trigger_release t) \<noteq> 0 \<longrightarrow>
       r = ERR_PTR (k_devm_add_action k dev (Trigger_release t)) \<and>
       devres s' = devres s \<and> trigs s' = trigs s) \<and>
    trigs (devres_release_all s' dev) = trigs (devres_release_all s dev)"
proof (cases "k_devm_add_action k dev (Trigger_release t) = 0")
  case True
  have s': "s' = s\<lparr>trigs := (trigs s)(t := (trigs s t)\<lparr>t_refcount := t_refcount (trigs s t) + 1\<rparr>),
           trace := trace s @ [Device_property_present dev ''adi,offloads'',
             Fwnode_find_reference dev ''adi,offloads'' 0,
             Bus_find_device_by_fwnode (k_find_reference k dev ''adi,offloads'' 0),
             Iio_trigger_acquire_by_parent od, Devm_add_action_or_reset dev (Trigger_release t)],
           devres := (devres s)(dev := Trigger_release t # devres s dev)\<rparr>"
    and r: "r = (if t_ops (trigs s t) \<noteq> axi_offload_pwm_trigger_ops then ERR_PTR (- EINVAL) else PTR t)"
    using assms(5) True
    by (auto simp add: get_optional_found [OF assms(1-4)] devm_add_action_or_reset_def log_def
        Let_def split: if_splits)
  have "trigs (devres_release_all s' dev) = trigs (devres_release_all s dev)"
    unfolding devres_release_all_def
    by (simp add: s' axi_spi_engine_offload_pwm_trigger_release_def)
       (rule devm_actions_run_trigs, simp add: iio_trigger_put_def log_def)
  then show ?thesis
    using True r by (simp add: s')
next
  case False
  have s': "s' = iio_trigger_put
       (s\<lparr>trigs := (trigs s)(t := (trigs s t)\<lparr>t_refcount := t_refcount (trigs s t) + 1\<rparr>),
          trace := trace s @ [Device_property_present dev ''adi,offloads'',
             Fwnode_find_reference dev ''adi,offloads'' 0,
             Bus_find_device_by_fwnode (k_find_reference k dev ''adi,offloads'' 0),
             Iio_trigger_acquire_by_parent od, Devm_add_action_or_reset dev (Trigger_release t)]\<rparr>) t"
    and r: "r = ERR_PTR (k_devm_add_action k dev (Trigger_release t))"
    using assms(5) False
    by (auto simp add: get_optional_found [OF assms(1-4)] devm_add_action_or_reset_def log_def
        Let_def axi_spi_engine_offload_pwm_trigger_release_def)
  have t: "trigs s' = trigs s"
    unfolding s' by (rule put_after_get)
  have d: "devres s' = devres s"
    by (simp add: s' iio_trigger_put_def log_def)
  have "trigs (devres_release_all s' dev) = trigs (devres_release_all s dev)"
    unfolding devres_release_all_def d
    by (rule devm_actions_run_trigs) (simp add: t)
  moreover have "trace s' = trace s @
       [Device_property_present dev ''adi,offloads'', Fwnode_find_reference dev ''adi,offloads'' 0,
        Bus_find_device_by_fwnode (k_find_reference k dev ''adi,offloads'' 0),
        Iio_trigger_acquire_by_parent od, Devm_add_action_or_reset dev (Trigger_release t)] @
       [Iio_trigger_put t]"
    by (simp add: s' iio_trigger_put_def log_def)
  ultimately show ?thesis
    using False r t d by simp
qed

theorem get_optional_release_action_witness:
  "k_property_present example_kernel 1 ''adi,offloads'' \<and>
   \<not> IS_ERR (k_find_reference example_kernel 1 ''adi,offloads'' 0) \<and>
   k_bus_find_device example_kernel (k_find_reference example_kernel 1 ''adi,offloads'' 0) = PTR 2 \<and>
   iio_trigger_find_by_parent foreign_state 2 = Some 7 \<and>
   k_devm_add_action example_kernel 1 (Trigger_release 7) = 0 \<and>
   fst (devm_axi_spi_engine_offload_pwm_trigger_get_optional example_kernel foreign_state 1) =
     ERR_PTR (- EINVAL) \<and>
   devres (snd (devm_axi_spi_engine_offload_pwm_trigger_get_optional example_kernel foreign_state 1)) 1 =
     [Trigger_release 7] \<and>
   t_refcount (trigs (snd (devm_axi_spi_engine_offload_pwm_trigger_get_optional example_kernel
     foreign_state 1)) 7) = 2 \<and>
   k_property_present no_memory_kernel 1 ''adi,offloads'' \<and>
   \<not> IS_ERR (k_find_reference no_memory_kernel 1 ''adi,offloads'' 0) \<and>
   k_bus_find_device no_memory_kernel (k_find_reference no_memory_kernel 1 ''adi,offloads'' 0) = PTR 2 \<and>
   k_devm_add_action no_memory_kernel 1 (Trigger_release 7) \<noteq> 0 \<and>
   fst (devm_axi_spi_engine_offload_pwm_trigger_get_optional no_memory_kernel foreign_state 1) =
     ERR_PTR (- ENOMEM) \<and>
   trigs (snd (devm_axi_spi_engine_offload_pwm_trigger_get_optional no_memory_kernel foreign_state 1)) =
     trigs foreign_state"
proof -
  have h6: "k_devm_add_action example_kernel 1 (Trigger_release 7) = 0"
    and h7: "t_ops (trigs foreign_state 7) \<noteq> axi_offload_pwm_trigger_ops"
    and h8: "devres foreign_state 1 = []"
    and h9: "t_refcount (trigs foreign_state 7) = 1"
    and g6: "k_devm_add_action no_memory_kernel 1 (Trigger_release 7) = - ENOMEM"
    by (simp_all add: example_defs)
  have g6': "k_devm_add_action no_memory_kernel 1 (Trigger_release 7) \<noteq> 0"
    unfolding g6 by (simp add: errno_values)
  show ?thesis
    using example_lookup(1,2,3,8) h6 h7 h8 h9
      get_optional_release_action [OF example_lookup(1,2,3,8) prod.collapse [symmetric]]
      example_lookup(4,5,6) g6 g6'
      get_optional_release_action [OF example_lookup(4,5,6,8) prod.collapse [symmetric]]
    by simp
qed

text \<open>
  C8 as it is stated fails: the call below acquires trigger 7 from the registry, the
  registration of the release action fails for lack of memory, and the call returns
  with no release action registered on the consumer device 1.
\<close>

theorem get_optional_release_action_counterexample:
  "k_property_present no_memory_kernel 1 ''adi,offloads'' \<and>
   k_bus_find_device no_memory_kernel (k_find_reference no_memory_kernel 1 ''adi,offloads'' 0) = PTR 2 \<and>
   iio_trigger_find_by_parent example_state 2 = Some 7 \<and>
   Iio_trigger_acquire_by_parent 2 \<in> set (trace (snd
     (devm_axi_spi_engine_offload_pwm_trigger_get_optional no_memory_kernel example_state 1))) \<and>
   devres (snd (devm_axi_spi_engine_offload_pwm_trigger_get_optional no_memory_kernel example_state 1)) 1 =
     []"
proof -
  have "snd (devm_axi_spi_engine_offload_pwm_trigger_get_optional no_memory_kernel example_state 1) =
    iio_trigger_put (example_state
      \<lparr>trigs := (trigs example_state)(7 := (trigs example_state 7)
          \<lparr>t_refcount := t_refcount (trigs example_state 7) + 1\<rparr>),
       trace := trace example_state @ [Device_property_present 1 ''adi,offloads'',
             Fwnode_find_reference 1 ''adi,offloads'' 0,
             Bus_find_device_by_fwnode (k_find_reference no_memory_kernel 1 ''adi,offloads'' 0),
             Iio_trigger_acquire_by_parent 2, Devm_add_action_or_reset 1 (Trigger_release 7)]\<rparr>) 7"
    unfolding get_optional_found [OF example_lookup(4,5,6,7)]
    by (simp add: devm_add_action_or_reset_def Let_def no_memory_kernel_def errno_values
        axi_spi_engine_offload_pwm_trigger_release_def log_def)
  then have "devres (snd (devm_axi_spi_engine_offload_pwm_trigger_get_optional no_memory_kernel
        example_state 1)) 1 = []"
    and "Iio_trigger_acquire_by_parent 2 \<in> set (trace (snd
     (devm_axi_spi_engine_offload_pwm_trigger_get_optional no_memory_kernel example_state 1)))"
    by (simp_all add: iio_trigger_put_def log_def example_state_def)
  then show ?thesis
    using example_lookup(4,6,7) by simp
qed

section \<open>Properties of the trigger operations\<close>

text \<open>
  C9: for every trigger and every consumer device the \<^verbatim>\<open>validate_device\<close> callback of
  the operations table of the driver is \<^verbatim>\<open>axi_offload_pwm_trigger_validate_device\<close> and
  returns \<^verbatim>\<open>-EINVAL\<close>, an error, so an assignment that asks this check is rejected
  whatever the inputs.
\<close>

theorem validate_device_rejects:
  "validate_device axi_offload_pwm_trigger_ops_table trig indio_dev = - EINVAL \<and>
   axi_offload_pwm_trigger_validate_device trig indio_dev = - EINVAL \<and>
   axi_offload_pwm_trigger_validate_device trig indio_dev < 0"
  by (simp add: axi_offload_pwm_trigger_ops_table_def axi_offload_pwm_trigger_validate_device_def
      EINVAL_def)

section \<open>Properties of attachment\<close>

text \<open>
  C3 (as amended): when the operations table of the trigger is not
  \<^verbatim>\<open>axi_offload_pwm_trigger_ops\<close>, setup returns \<^verbatim>\<open>-EINVAL\<close> and the state is the one it
  started from. Otherwise the mode bits of the consumer gain \<^verbatim>\<open>INDIO_BUFFER_HARDWARE\<close> and
  \<^verbatim>\<open>INDIO_HARDWARE_TRIGGERED\<close>, the active trigger of the consumer is the given trigger,
  which holds one more reference, and the buffer of the driver data of that trigger is
  handed to \<^verbatim>\<open>iio_device_attach_buffer\<close> for the consumer, whose return code setup
  returns: when that call succeeds the buffer is the one attached last, when it fails no
  buffer is attached.
\<close>

theorem setup_attaches:
  "(t_ops (trigs s trig) \<noteq> axi_offload_pwm_trigger_ops \<longrightarrow>
      axi_spi_engine_offload_pwm_trigger_setup k s indio_dev trig = (- EINVAL, s)) \<and>
   (t_ops (trigs s trig) = axi_offload_pwm_trigger_ops \<longrightarrow>
      (case axi_spi_engine_offload_pwm_trigger_setup k s indio_dev trig of (ret, s') \<Rightarrow>
         indio_modes (iio_devs s' indio_dev) =
           indio_modes (iio_devs s indio_dev) OR (INDIO_BUFFER_HARDWARE OR INDIO_HARDWARE_TRIGGERED) \<and>
         indio_modes (iio_devs s' indio_dev) AND (INDIO_BUFFER_HARDWARE OR INDIO_HARDWARE_TRIGGERED) =
           INDIO_BUFFER_HARDWARE OR INDIO_HARDWARE_TRIGGERED \<and>
         indio_trig (iio_devs s' indio_dev) = Some trig \<and>
         t_refcount (trigs s' trig) = t_refcount (trigs s trig) + 1 \<and>
         trace s' = trace s @
           [Iio_trigger_get trig,
            Iio_device_attach_buffer indio_dev (st_buffer (t_drvdata (trigs s trig)))] \<and>
         ret = k_attach_buffer k indio_dev (st_buffer (t_drvdata (trigs s trig))) \<and>
         (ret = 0 \<longrightarrow>
            indio_buffers (iio_devs s' indio_dev) =
              indio_buffers (iio_devs s indio_dev) @ [st_buffer (t_drvdata (trigs s trig))]) \<and>
         (ret \<noteq> 0 \<longrightarrow>
            indio_buffers (iio_devs s' indio_dev) = indio_buffers (iio_devs s indio_dev))))"
  by (simp add: axi_spi_engine_offload_pwm_trigger_setup_def iio_trigger_get_drvdata_def
      iio_trigger_get_def iio_device_attach_buffer_def log_def Let_def)

theorem setup_attaches_witness:
  "t_ops (trigs foreign_state 7) \<noteq> axi_offload_pwm_trigger_ops \<and>
   axi_spi_engine_offload_pwm_trigger_setup example_kernel foreign_state 6 7 = (- EINVAL, foreign_state) \<and>
   t_ops (trigs example_state 7) = axi_offload_pwm_trigger_ops \<and>
   fst (axi_spi_engine_offload_pwm_trigger_setup example_kernel example_state 6 7) = 0 \<and>
   iio_devs (snd (axi_spi_engine_offload_pwm_trigger_setup example_kernel example_state 6 7)) 6 =
     \<lparr>indio_modes = 0x29, indio_trig = Some 7, indio_buffers = [5]\<rparr> \<and>
   t_refcount (trigs (snd (axi_spi_engine_offload_pwm_trigger_setup example_kernel example_state 6 7)) 7) = 2 \<and>
   fst (axi_spi_engine_offload_pwm_trigger_setup no_attach_kernel example_state 6 7) \<noteq> 0 \<and>
   iio_devs (snd (axi_spi_engine_offload_pwm_trigger_setup no_attach_kernel example_state 6 7)) 6 =
     \<lparr>indio_modes = 0x29, indio_trig = Some 7, indio_buffers = []\<rparr>"
proof -
  have f: "t_ops (trigs foreign_state 7) \<noteq> axi_offload_pwm_trigger_ops"
    and e: "t_ops (trigs example_state 7) = axi_offload_pwm_trigger_ops"
    by (simp_all add: example_defs)
  have v: "iio_devs example_state 6 = \<lparr>indio_modes = 1, indio_trig = None, indio_buffers = []\<rparr>"
    "t_refcount (trigs example_state 7) = 1"
    "st_buffer (t_drvdata (trigs example_state 7)) = 5"
    "k_attach_buffer example_kernel 6 5 = 0"
    "k_attach_buffer no_attach_kernel 6 5 \<noteq> 0"
    by (simp_all add: example_defs no_attach_kernel_def errno_values)
  have m: "(1 :: 32 word) OR (INDIO_BUFFER_HARDWARE OR INDIO_HARDWARE_TRIGGERED) = 0x29"
    by (simp add: INDIO_BUFFER_HARDWARE_def INDIO_HARDWARE_TRIGGERED_def)
  show ?thesis
    using f e v m
      setup_attaches [of foreign_state 7 example_kernel 6]
      setup_attaches [of example_state 7 example_kernel 6]
      setup_attaches [of example_state 7 no_attach_kernel 6]
    by (auto split: prod.splits)
qed

text \<open>
  C3 as it is stated fails: trigger 7 has the operations table of the driver and its
  buffer is 5, but in a kernel in which \<^verbatim>\<open>iio_device_attach_buffer\<close> fails for lack of
  memory setup returns \<^verbatim>\<open>-ENOMEM\<close> and no buffer is attached to the consumer, while the
  active trigger and the reference count have changed.
\<close>

theorem setup_attaches_counterexample:
  "t_ops (trigs example_state 7) = axi_offload_pwm_trigger_ops \<and>
   st_buffer (t_drvdata (trigs example_state 7)) = 5 \<and>
   fst (axi_spi_engine_offload_pwm_trigger_setup no_attach_kernel example_state 6 7) = - ENOMEM \<and>
   indio_buffers (iio_devs (snd
     (axi_spi_engine_offload_pwm_trigger_setup no_attach_kernel example_state 6 7)) 6) = [] \<and>
   indio_trig (iio_devs (snd
     (axi_spi_engine_offload_pwm_trigger_setup no_attach_kernel example_state 6 7)) 6) = Some 7 \<and>
   t_refcount (trigs (snd
     (axi_spi_engine_offload_pwm_trigger_setup no_attach_kernel example_state 6 7)) 7) = 2"
  by (simp add: axi_spi_engine_offload_pwm_trigger_setup_def iio_trigger_get_drvdata_def
      iio_trigger_get_def iio_device_attach_buffer_def log_def Let_def example_defs
      no_attach_kernel_def errno_values)

section \<open>Properties of the rate controller\<close>

subsection \<open>The exact quotients\<close>

lemma ceil_div_bounds:
  assumes "0 < d"
  shows "n \<le> ceil_div n d * d \<and> ceil_div n d * d < n + d"
proof -
  let ?m = "n + d - 1"
  have eq: "?m div d * d + ?m mod d = ?m"
    by simp
  have lt: "?m mod d < d"
    using assms by simp
  show ?thesis
    unfolding ceil_div_def using eq lt assms by linarith
qed

lemma ceil_div_ceiling:
  assumes "0 < d"
  shows "int (ceil_div n d) = \<lceil>real n / real d\<rceil>"
proof -
  let ?p = "ceil_div n d"
  have b: "n \<le> ?p * d" "?p * d < n + d"
    using ceil_div_bounds [OF assms] by simp_all
  have "real n \<le> real (?p * d)"
    using b(1) by (rule of_nat_mono)
  then have up: "real n / real d \<le> of_int (int ?p)"
    using assms by (simp add: field_simps)
  have "real (?p * d) < real (n + d)"
    using b(2) by (rule of_nat_less_iff [THEN iffD2])
  then have lo: "of_int (int ?p) - 1 < real n / real d"
    using assms by (simp add: field_simps)
  show ?thesis
    using ceiling_unique [OF lo up] by simp
qed

lemma round_div_round:
  assumes "0 < d"
  shows "int (round_div x d) = round (real x / real d)"
proof -
  have "round (real x / real d) = \<lfloor>real (2 * x + d) / real (2 * d)\<rfloor>"
    using assms by (simp add: round_def field_simps)
  also have "\<dots> = int ((2 * x + d) div (2 * d))"
    by (rule floor_divide_of_nat_eq)
  also have "(2 * x + d) div (2 * d) = ((2 * x + d) div 2) div d"
    by (simp add: div_mult2_eq)
  also have "(2 * x + d) div 2 = x + d div 2"
    by simp
  finally show ?thesis by (simp add: round_div_def)
qed

lemma round_div_le:
  assumes "0 < d" and "0 < x"
  shows "round_div x d \<le> x"
proof (cases "d = 1")
  case True
  then show ?thesis by (simp add: round_div_def)
next
  case False
  then have d: "2 \<le> d" using assms by simp
  have "x + d div 2 < x * d + d"
  proof -
    have "x * 2 \<le> x * d" using d by (rule mult_le_mono2)
    then show ?thesis using assms by linarith
  qed
  then have "x + d div 2 < d * Suc x" by (simp add: algebra_simps)
  then have "(x + d div 2) div d < Suc x"
    using assms(1) by (simp add: div_less_iff_less_mult algebra_simps)
  then show ?thesis by (simp add: round_div_def)
qed

lemma round_trip_exact:
  assumes "1 \<le> f" and "f \<le> 10000"
  shows "round_div NSEC_PER_SEC (ceil_div NSEC_PER_SEC f) = f"
proof -
  let ?p = "ceil_div NSEC_PER_SEC f"
  have f0: "0 < f" using assms by simp
  have b: "1000000000 \<le> ?p * f" "?p * f < 1000000000 + f"
    using ceil_div_bounds [OF f0, of NSEC_PER_SEC] by (simp_all add: NSEC_PER_SEC_def)
  have "?p * f \<le> ?p * 10000"
    using assms(2) by (rule mult_le_mono2)
  then have p: "100000 \<le> ?p"
    using b(1) by linarith
  have lo: "?p * f \<le> 1000000000 + ?p div 2"
    using b(2) p assms(2) by linarith
  have hi: "1000000000 + ?p div 2 < ?p * Suc f"
    using b(1) p by simp
  have "(1000000000 + ?p div 2) div ?p = f"
    using lo hi by (intro div_nat_eqI) simp_all
  then show ?thesis
    by (simp add: round_div_def NSEC_PER_SEC_def)
qed

lemma period_fits:
  assumes "0 < f"
  shows "0 < ceil_div NSEC_PER_SEC f \<and> ceil_div NSEC_PER_SEC f \<le> 1000000000"
proof -
  let ?p = "ceil_div NSEC_PER_SEC f"
  have b: "1000000000 \<le> ?p * f" "?p * f < 1000000000 + f"
    using ceil_div_bounds [OF assms, of NSEC_PER_SEC] by (simp_all add: NSEC_PER_SEC_def)
  have pos: "0 < ?p"
    using b(1) by (cases "?p = 0") simp_all
  have "?p \<le> 1000000000"
  proof (rule ccontr)
    assume "\<not> ?p \<le> 1000000000"
    then have "1000000001 \<le> ?p" by simp
    then have "1000000001 * f \<le> ?p * f" by (rule mult_le_mono1)
    then show False using b(2) assms by linarith
  qed
  then show ?thesis using pos by simp
qed

lemma period_word:
  assumes "0 < f"
  shows "unat (word_of_int (int (ceil_div NSEC_PER_SEC f)) :: 64 word) = ceil_div NSEC_PER_SEC f"
proof -
  have "ceil_div NSEC_PER_SEC f < 2 ^ 64"
    using period_fits [OF assms] by simp
  then show ?thesis
    by (simp add: unat_of_nat take_bit_nat_eq_self)
qed

subsection \<open>The macros in machine arithmetic\<close>

lemma unat_nonzero: "(w :: 32 word) \<noteq> 0 \<Longrightarrow> 0 < unat w"
  by (simp add: unat_gt_0)

lemma DIV_ROUND_UP_exact:
  assumes "n + d - 1 < 2 ^ BITS_PER_LONG a"
  shows "DIV_ROUND_UP a n d = ceil_div n d"
  using assms by (simp add: DIV_ROUND_UP_def ceil_div_def)

lemma no_wrap:
  fixes f :: "32 word"
  assumes "a = LP64 \<or> unat f \<le> 3294967296"
  shows "NSEC_PER_SEC + unat f - 1 < 2 ^ BITS_PER_LONG a"
proof (cases a)
  case ILP32
  then show ?thesis
    using assms by (simp add: NSEC_PER_SEC_def)
next
  case LP64
  have "unat f < 2 ^ 32"
    using unsigned_less [of f] by simp
  then show ?thesis
    using LP64 by (simp add: NSEC_PER_SEC_def)
qed

lemma DIV_ROUND_UP_fits_int:
  assumes "0 < d"
  shows "DIV_ROUND_UP a NSEC_PER_SEC d < 2 ^ 31"
proof (cases "d = 1")
  case True
  then show ?thesis
    by (cases a) (simp_all add: DIV_ROUND_UP_def NSEC_PER_SEC_def)
next
  case False
  then have d: "2 \<le> d" using assms by simp
  let ?m = "(NSEC_PER_SEC + d - 1) mod 2 ^ BITS_PER_LONG a"
  show ?thesis
  proof (cases a)
    case ILP32
    have "?m div d \<le> ?m div 2"
      using d by (intro div_le_mono2) simp_all
    moreover have "?m < 4294967296"
      using ILP32 by simp
    then have "?m div 2 < 2147483648"
      by simp
    ultimately have "?m div d < 2147483648"
      by (rule le_less_trans)
    then show ?thesis
      unfolding DIV_ROUND_UP_def by simp
  next
    case LP64
    show ?thesis
    proof (cases "NSEC_PER_SEC + d - 1 < 2 ^ 64")
      case True
      then have "DIV_ROUND_UP a NSEC_PER_SEC d = ceil_div NSEC_PER_SEC d"
        using LP64 by (intro DIV_ROUND_UP_exact) simp
      then show ?thesis
        using period_fits [OF assms] by simp
    next
      case False
      then have big: "2 ^ 33 \<le> d"
        by (simp add: NSEC_PER_SEC_def)
      have "?m < 2 ^ 64"
        using LP64 by simp
      then have "?m div d \<le> (2 ^ 64 - 1) div d"
        by (intro div_le_mono) simp
      also have "\<dots> \<le> (2 ^ 64 - 1) div 2 ^ 33"
        using big by (intro div_le_mono2) simp_all
      finally show ?thesis
        unfolding DIV_ROUND_UP_def by simp
    qed
  qed
qed

lemma DIV_ROUND_CLOSEST_ULL_exact:
  assumes "0 < d" and "d < 2 ^ 32" and "x < 2 ^ 63"
  shows "DIV_ROUND_CLOSEST_ULL x d = Some (round_div x d)"
proof -
  have "x + d div 2 < 2 ^ 64"
    using assms(2,3) by simp
  then show ?thesis
    using assms(1,2) by (simp add: DIV_ROUND_CLOSEST_ULL_def round_div_def Let_def)
qed

lemma set_samp_freq_result:
  assumes "requested_hz \<noteq> 0" and "k_abi k = LP64 \<or> unat requested_hz \<le> 3294967296"
  shows "axi_spi_engine_offload_set_samp_freq k s st requested_hz =
    (let period_ns = int (ceil_div NSEC_PER_SEC (unat requested_hz));
         ret = k_pwm_config k (st_pwm st) 10 period_ns;
         s1 = s\<lparr>trace := trace s @ [Pwm_config (st_pwm st) 10 period_ns]\<rparr>
     in if ret \<noteq> 0 then (ret, s1)
        else (0, s1\<lparr>pwms := (pwms s)(st_pwm st := (pwms s (st_pwm st))
               \<lparr>pwm_period := word_of_int period_ns, pwm_duty_cycle := 10\<rparr>)\<rparr>))"
  using assms(1)
  by (simp add: axi_spi_engine_offload_set_samp_freq_def pwm_config_def log_def Let_def
      DIV_ROUND_UP_exact [OF no_wrap [OF assms(2)]])

subsection \<open>Setting the rate\<close>

text \<open>
  C4 (as amended): for a requested frequency other than 0 whose sum with \<open>10 ^ 9 - 1\<close>
  fits the \<^verbatim>\<open>long\<close> of the platform (every frequency with a 64-bit \<^verbatim>\<open>long\<close>, those up
  to 3294967296 with a 32-bit one), the rate controller makes exactly one call
  \<^verbatim>\<open>pwm_config(pwm, 10, period_ns)\<close> with \<^verbatim>\<open>period_ns = ceil(1e9 / requested_hz)\<close> and
  returns its return code. When the call succeeds the pulse source holds that period
  and the duty cycle 10, when it fails the pulse source is unchanged. The duty cycle
  does not depend on the frequency: after each of two frequencies set with success in
  sequence it is 10.
\<close>

theorem set_samp_freq_configures:
  assumes "f1 \<noteq> 0" and "f2 \<noteq> 0"
    and "k_abi k = LP64 \<or> unat f1 \<le> 3294967296"
    and "k_abi k = LP64 \<or> unat f2 \<le> 3294967296"
    and "axi_spi_engine_offload_set_samp_freq k s st f1 = (r1, s1)"
    and "axi_spi_engine_offload_set_samp_freq k s1 st f2 = (r2, s2)"
  shows "trace s1 = trace s @ [Pwm_config (st_pwm st) 10 \<lceil>1000000000 / real (unat f1)\<rceil>] \<and>
    trace s2 = trace s1 @ [Pwm_config (st_pwm st) 10 \<lceil>1000000000 / real (unat f2)\<rceil>] \<and>
    r1 = k_pwm_config k (st_pwm st) 10 \<lceil>1000000000 / real (unat f1)\<rceil> \<and>
    r2 = k_pwm_config k (st_pwm st) 10 \<lceil>1000000000 / real (unat f2)\<rceil> \<and>
    (r1 = 0 \<longrightarrow> uint (pwm_period (pwms s1 (st_pwm st))) = \<lceil>1000000000 / real (unat f1)\<rceil> \<and>
       pwm_duty_cycle (pwms s1 (st_pwm st)) = 10) \<and>
    (r2 = 0 \<longrightarrow> uint (pwm_period (pwms s2 (st_pwm st))) = \<lceil>1000000000 / real (unat f2)\<rceil> \<and>
       pwm_duty_cycle (pwms s2 (st_pwm st)) = 10) \<and>
    (r1 \<noteq> 0 \<longrightarrow> pwms s1 = pwms s) \<and> (r2 \<noteq> 0 \<longrightarrow> pwms s2 = pwms s1)"
proof -
  have c: "int (ceil_div NSEC_PER_SEC (unat f)) = \<lceil>1000000000 / real (unat f)\<rceil>"
    and u: "uint (word_of_int (int (ceil_div NSEC_PER_SEC (unat f))) :: 64 word) =
       \<lceil>1000000000 / real (unat f)\<rceil>" if "f \<noteq> 0" for f :: "32 word"
  proof -
    have p: "0 < unat f" using that by (rule unat_nonzero)
    show c: "int (ceil_div NSEC_PER_SEC (unat f)) = \<lceil>1000000000 / real (unat f)\<rceil>"
      using ceil_div_ceiling [OF p, of NSEC_PER_SEC] by (simp add: NSEC_PER_SEC_def)
    have "uint (word_of_int (int (ceil_div NSEC_PER_SEC (unat f))) :: 64 word) =
       int (unat (word_of_int (int (ceil_div NSEC_PER_SEC (unat f))) :: 64 word))"
      by simp
    also have "\<dots> = int (ceil_div NSEC_PER_SEC (unat f))"
      by (simp only: period_word [OF p])
    finally show "uint (word_of_int (int (ceil_div NSEC_PER_SEC (unat f))) :: 64 word) =
       \<lceil>1000000000 / real (unat f)\<rceil>"
      using c by simp
  qed
  have one: "trace b = trace a @ [Pwm_config (st_pwm st) 10 \<lceil>1000000000 / real (unat f)\<rceil>] \<and>
      r = k_pwm_config k (st_pwm st) 10 \<lceil>1000000000 / real (unat f)\<rceil> \<and>
      (r = 0 \<longrightarrow> uint (pwm_period (pwms b (st_pwm st))) = \<lceil>1000000000 / real (unat f)\<rceil> \<and>
         pwm_duty_cycle (pwms b (st_pwm st)) = 10) \<and>
      (r \<noteq> 0 \<longrightarrow> pwms b = pwms a)"
    if "f \<noteq> 0" and "k_abi k = LP64 \<or> unat f \<le> 3294967296"
      and "axi_spi_engine_offload_set_samp_freq k a st f = (r, b)" for f a r b
    using that(3) c [OF that(1)] u [OF that(1)]
    by (auto simp add: set_samp_freq_result [OF that(1,2)] Let_def split: if_splits)
  show ?thesis
    using one [OF assms(1,3,5)] one [OF assms(2,4,6)] by simp
qed

theorem set_samp_freq_configures_witness:
  "(500 :: 32 word) \<noteq> 0 \<and> (3 :: 32 word) \<noteq> 0 \<and>
   k_abi example_kernel = LP64 \<and> unat (500 :: 32 word) \<le> 3294967296 \<and>
   unat (3 :: 32 word) \<le> 3294967296 \<and>
   fst (axi_spi_engine_offload_set_samp_freq example_kernel example_state \<lparr>st_buffer = 5, st_pwm = 4\<rparr> 500) = 0 \<and>
   pwm_period (pwms (snd (axi_spi_engine_offload_set_samp_freq example_kernel example_state
      \<lparr>st_buffer = 5, st_pwm = 4\<rparr> 500)) 4) = 2000000 \<and>
   pwm_duty_cycle (pwms (snd (axi_spi_engine_offload_set_samp_freq example_kernel example_state
      \<lparr>st_buffer = 5, st_pwm = 4\<rparr> 500)) 4) = 10 \<and>
   pwm_period (pwms (snd (axi_spi_engine_offload_set_samp_freq example_kernel
      (snd (axi_spi_engine_offload_set_samp_freq example_kernel example_state \<lparr>st_buffer = 5, st_pwm = 4\<rparr> 500))
      \<lparr>st_buffer = 5, st_pwm = 4\<rparr> 3)) 4) = 333333334 \<and>
   pwm_duty_cycle (pwms (snd (axi_spi_engine_offload_set_samp_freq example_kernel
      (snd (axi_spi_engine_offload_set_samp_freq example_kernel example_state \<lparr>st_buffer = 5, st_pwm = 4\<rparr> 500))
      \<lparr>st_buffer = 5, st_pwm = 4\<rparr> 3)) 4) = 10 \<and>
   trace (snd (axi_spi_engine_offload_set_samp_freq ilp32_kernel example_state
      \<lparr>st_buffer = 5, st_pwm = 4\<rparr> 500)) = [Pwm_config 4 10 2000000] \<and>
   fst (axi_spi_engine_offload_set_samp_freq failing_pwm_kernel example_state \<lparr>st_buffer = 5, st_pwm = 4\<rparr> 500) \<noteq> 0 \<and>
   pwms (snd (axi_spi_engine_offload_set_samp_freq failing_pwm_kernel example_state
      \<lparr>st_buffer = 5, st_pwm = 4\<rparr> 500)) = pwms example_state"
proof -
  have c: "\<lceil>1000000000 / real (unat (500 :: 32 word))\<rceil> = 2000000"
    "\<lceil>1000000000 / real (unat (3 :: 32 word))\<rceil> = 333333334"
    by (simp_all add: ceiling_unique)
  have k: "k_pwm_config example_kernel p d n = 0" "k_pwm_config failing_pwm_kernel p d n \<noteq> 0" for p d n
    by (simp_all add: example_kernel_def failing_pwm_kernel_def errno_values)
  have w: "uint (x :: 64 word) = 2000000 \<longleftrightarrow> x = 2000000"
    "uint (x :: 64 word) = 333333334 \<longleftrightarrow> x = 333333334" for x
    by (simp_all add: word_uint_eq_iff)
  have n: "(500 :: 32 word) \<noteq> 0" "(3 :: 32 word) \<noteq> 0"
    by simp_all
  have a: "k_abi example_kernel = LP64" "k_abi failing_pwm_kernel = LP64"
    by (simp_all add: example_kernel_def failing_pwm_kernel_def)
  have b: "unat (500 :: 32 word) \<le> 3294967296" "unat (3 :: 32 word) \<le> 3294967296"
    by simp_all
  have t: "trace example_state = []"
    by (simp add: example_state_def)
  show ?thesis
    using n a(1) b t
      set_samp_freq_configures [OF n disjI1 [OF a(1)] disjI1 [OF a(1)]
        prod.collapse [symmetric] prod.collapse [symmetric],
        of example_state "\<lparr>st_buffer = 5, st_pwm = 4\<rparr>"]
      set_samp_freq_configures [OF n disjI2 [OF b(1)] disjI2 [OF b(2)]
        prod.collapse [symmetric] prod.collapse [symmetric],
        of ilp32_kernel example_state "\<lparr>st_buffer = 5, st_pwm = 4\<rparr>"]
      set_samp_freq_configures [OF n disjI1 [OF a(2)] disjI1 [OF a(2)]
        prod.collapse [symmetric] prod.collapse [symmetric],
        of example_state "\<lparr>st_buffer = 5, st_pwm = 4\<rparr>"]
    by (simp add: c k w)
qed

text \<open>
  C4 as it is stated fails in two ways. With a 32-bit \<^verbatim>\<open>long\<close> the frequency 4294967295
  makes the sum wrap and the driver asks for the period 0, although
  \<^verbatim>\<open>ceil(1e9 / 4294967295)\<close> is 1. And when the PWM core rejects the request, nothing is
  applied: the stopped pulse source keeps the duty cycle 0 and the period 0.
\<close>

theorem set_samp_freq_configures_counterexample:
  "(4294967295 :: 32 word) \<noteq> 0 \<and>
   \<lceil>1000000000 / real (unat (4294967295 :: 32 word))\<rceil> = 1 \<and>
   trace (snd (axi_spi_engine_offload_set_samp_freq ilp32_kernel example_state
      \<lparr>st_buffer = 5, st_pwm = 4\<rparr> 4294967295)) = [Pwm_config 4 10 0] \<and>
   (500 :: 32 word) \<noteq> 0 \<and>
   fst (axi_spi_engine_offload_set_samp_freq failing_pwm_kernel stopped_state
      \<lparr>st_buffer = 5, st_pwm = 4\<rparr> 500) = - EINVAL \<and>
   pwm_duty_cycle (pwms (snd (axi_spi_engine_offload_set_samp_freq failing_pwm_kernel stopped_state
      \<lparr>st_buffer = 5, st_pwm = 4\<rparr> 500)) 4) = 0 \<and>
   pwm_period (pwms (snd (axi_spi_engine_offload_set_samp_freq failing_pwm_kernel stopped_state
      \<lparr>st_buffer = 5, st_pwm = 4\<rparr> 500)) 4) = 0"
proof -
  have c: "\<lceil>1000000000 / real (unat (4294967295 :: 32 word))\<rceil> = 1"
    by (simp add: ceiling_unique)
  have w: "DIV_ROUND_UP ILP32 NSEC_PER_SEC 4294967295 = 0"
    by (simp add: DIV_ROUND_UP_def NSEC_PER_SEC_def)
  have t: "trace (snd (axi_spi_engine_offload_set_samp_freq ilp32_kernel example_state
      \<lparr>st_buffer = 5, st_pwm = 4\<rparr> 4294967295)) = [Pwm_config 4 10 0]"
    by (simp add: axi_spi_engine_offload_set_samp_freq_def ilp32_kernel_def example_kernel_def w)
      (simp add: pwm_config_def log_def Let_def example_state_def)
  have f: "fst (axi_spi_engine_offload_set_samp_freq failing_pwm_kernel stopped_state
      \<lparr>st_buffer = 5, st_pwm = 4\<rparr> 500) = - EINVAL"
    "pwms (snd (axi_spi_engine_offload_set_samp_freq failing_pwm_kernel stopped_state
      \<lparr>st_buffer = 5, st_pwm = 4\<rparr> 500)) = pwms stopped_state"
    by (simp_all add: axi_spi_engine_offload_set_samp_freq_def pwm_config_def log_def Let_def
        failing_pwm_kernel_def example_kernel_def errno_values)
  show ?thesis
    using c t f by (simp add: stopped_state_def)
qed

subsection \<open>Reading the rate back\<close>

lemma get_rate_nonzero:
  assumes "pwm_get_period s (st_pwm (iio_trigger_get_drvdata s trig)) \<noteq> 0"
    and "unat (pwm_get_period s (st_pwm (iio_trigger_get_drvdata s trig))) < 2 ^ 32"
  shows "map_option uint (axi_spi_engine_offload_pwm_trigger_get_rate s trig) =
    Some (round (1000000000 / real (unat (pwm_get_period s (st_pwm (iio_trigger_get_drvdata s trig))))))"
proof -
  let ?p = "unat (pwm_get_period s (st_pwm (iio_trigger_get_drvdata s trig)))"
  have p: "0 < ?p"
    using assms(1) by (simp add: unat_gt_0)
  have ex: "DIV_ROUND_CLOSEST_ULL NSEC_PER_SEC ?p = Some (round_div NSEC_PER_SEC ?p)"
    by (rule DIV_ROUND_CLOSEST_ULL_exact [OF p assms(2)]) (simp add: NSEC_PER_SEC_def)
  have "round_div NSEC_PER_SEC ?p \<le> NSEC_PER_SEC"
    by (rule round_div_le [OF p]) (simp add: NSEC_PER_SEC_def)
  then have lt: "round_div NSEC_PER_SEC ?p < 2 ^ 32"
    by (simp add: NSEC_PER_SEC_def)
  have "map_option uint (axi_spi_engine_offload_pwm_trigger_get_rate s trig) =
      Some (int (unat (word_of_nat (round_div NSEC_PER_SEC ?p) :: 32 word)))"
    using assms(1) by (simp add: axi_spi_engine_offload_pwm_trigger_get_rate_def Let_def ex)
  also have "unat (word_of_nat (round_div NSEC_PER_SEC ?p) :: 32 word) = round_div NSEC_PER_SEC ?p"
    using lt by (simp add: unat_of_nat take_bit_nat_eq_self)
  also have "int (round_div NSEC_PER_SEC ?p) = round (real NSEC_PER_SEC / real ?p)"
    by (rule round_div_round [OF p])
  finally show ?thesis
    by (simp add: NSEC_PER_SEC_def)
qed

lemma get_rate_after_set:
  assumes "1 \<le> unat f" and "unat f \<le> 10000"
    and "axi_spi_engine_offload_set_samp_freq k s (iio_trigger_get_drvdata s trig) f = (0, s')"
  shows "axi_spi_engine_offload_pwm_trigger_get_rate s' trig = Some f"
    and "pwm_get_period s' (st_pwm (iio_trigger_get_drvdata s' trig)) =
      word_of_int (int (ceil_div NSEC_PER_SEC (unat f)))"
proof -
  let ?st = "iio_trigger_get_drvdata s trig"
  let ?p = "ceil_div NSEC_PER_SEC (unat f)"
  have f0: "f \<noteq> 0" and u0: "0 < unat f"
    using assms(1) by auto
  have nw: "k_abi k = LP64 \<or> unat f \<le> 3294967296"
    using assms(2) by simp
  have s': "s' = s\<lparr>trace := trace s @ [Pwm_config (st_pwm ?st) 10 (int ?p)],
      pwms := (pwms s)(st_pwm ?st := (pwms s (st_pwm ?st))
               \<lparr>pwm_period := word_of_int (int ?p), pwm_duty_cycle := 10\<rparr>)\<rparr>"
    using assms(3) by (simp add: set_samp_freq_result [OF f0 nw] Let_def split: if_splits)
  have st: "iio_trigger_get_drvdata s' trig = ?st"
    by (simp add: s' iio_trigger_get_drvdata_def)
  show per: "pwm_get_period s' (st_pwm (iio_trigger_get_drvdata s' trig)) = word_of_int (int ?p)"
    by (simp add: st) (simp add: s' pwm_get_period_def)
  have ne: "(word_of_int (int ?p) :: 64 word) \<noteq> 0"
    using period_word [OF u0] period_fits [OF u0] by (metis less_numeral_extra(3) unat_0)
  have small: "0 < ?p" "?p < 2 ^ 32"
    using period_fits [OF u0] by simp_all
  have "axi_spi_engine_offload_pwm_trigger_get_rate s' trig =
      map_option word_of_nat
        (DIV_ROUND_CLOSEST_ULL NSEC_PER_SEC (unat (word_of_int (int ?p) :: 64 word)))"
    using ne by (simp add: axi_spi_engine_offload_pwm_trigger_get_rate_def per Let_def)
  also have "\<dots> = map_option word_of_nat (DIV_ROUND_CLOSEST_ULL NSEC_PER_SEC ?p)"
    by (simp only: period_word [OF u0])
  also have "\<dots> = Some (word_of_nat (round_div NSEC_PER_SEC ?p))"
    using DIV_ROUND_CLOSEST_ULL_exact [OF small, of NSEC_PER_SEC] by (simp add: NSEC_PER_SEC_def)
  also have "\<dots> = Some (word_of_nat (unat f))"
    by (simp only: round_trip_exact [OF assms(1,2)])
  finally show "axi_spi_engine_offload_pwm_trigger_get_rate s' trig = Some f"
    by simp
qed

text \<open>
  C5 (as amended): the rate read back is 0 when the period of the pulse source is 0, and
  \<^verbatim>\<open>round(1e9 / period_ns)\<close> when the period is not 0 and below \<open>2 ^ 32\<close> nanoseconds, as
  is every period the driver itself configures. For a frequency \<open>f\<close> from 1 to 10000,
  setting it successfully and reading back yields \<^verbatim>\<open>round(1e9 / ceil(1e9 / f))\<close>, no more
  than one Hz away from \<open>f\<close> (lemma \<open>get_rate_after_set\<close>: it is \<open>f\<close> itself). Setting the
  frequency 0 fails and leaves the state, and with it the rate read back, unchanged.
\<close>

theorem get_rate_round_trip:
  "(pwm_get_period s (st_pwm (iio_trigger_get_drvdata s trig)) = 0 \<longrightarrow>
      axi_spi_engine_offload_pwm_trigger_get_rate s trig = Some 0) \<and>
   (pwm_get_period s (st_pwm (iio_trigger_get_drvdata s trig)) \<noteq> 0 \<and>
    unat (pwm_get_period s (st_pwm (iio_trigger_get_drvdata s trig))) < 2 ^ 32 \<longrightarrow>
      map_option uint (axi_spi_engine_offload_pwm_trigger_get_rate s trig) =
        Some (round (1000000000 / real (unat (pwm_get_period s (st_pwm (iio_trigger_get_drvdata s trig))))))) \<and>
   (1 \<le> unat f \<and> unat f \<le> 10000 \<and>
    axi_spi_engine_offload_set_samp_freq k s (iio_trigger_get_drvdata s trig) f = (0, s') \<longrightarrow>
      (\<exists>rate. axi_spi_engine_offload_pwm_trigger_get_rate s' trig = Some rate \<and>
         uint rate = round (1000000000 / real_of_int \<lceil>1000000000 / real (unat f)\<rceil>) \<and>
         \<bar>uint rate - uint f\<bar> \<le> 1)) \<and>
   axi_spi_engine_offload_set_samp_freq k s (iio_trigger_get_drvdata s trig) 0 = (- EINVAL, s)"
proof (intro conjI impI)
  show "axi_spi_engine_offload_set_samp_freq k s (iio_trigger_get_drvdata s trig) 0 = (- EINVAL, s)"
    by (simp add: axi_spi_engine_offload_set_samp_freq_def)
next
  assume "pwm_get_period s (st_pwm (iio_trigger_get_drvdata s trig)) = 0"
  then show "axi_spi_engine_offload_pwm_trigger_get_rate s trig = Some 0"
    by (simp add: axi_spi_engine_offload_pwm_trigger_get_rate_def Let_def)
next
  assume "pwm_get_period s (st_pwm (iio_trigger_get_drvdata s trig)) \<noteq> 0 \<and>
    unat (pwm_get_period s (st_pwm (iio_trigger_get_drvdata s trig))) < 2 ^ 32"
  then show "map_option uint (axi_spi_engine_offload_pwm_trigger_get_rate s trig) =
        Some (round (1000000000 / real (unat (pwm_get_period s (st_pwm (iio_trigger_get_drvdata s trig))))))"
    using get_rate_nonzero by blast
next
  assume a: "1 \<le> unat f \<and> unat f \<le> 10000 \<and>
    axi_spi_engine_offload_set_samp_freq k s (iio_trigger_get_drvdata s trig) f = (0, s')"
  then have u0: "0 < unat f" by simp
  have rate: "axi_spi_engine_offload_pwm_trigger_get_rate s' trig = Some f"
    and per: "pwm_get_period s' (st_pwm (iio_trigger_get_drvdata s' trig)) =
      word_of_int (int (ceil_div NSEC_PER_SEC (unat f)))"
    using get_rate_after_set [of f k s trig s'] a by simp_all
  have ne: "pwm_get_period s' (st_pwm (iio_trigger_get_drvdata s' trig)) \<noteq> 0"
    using per period_word [OF u0] period_fits [OF u0] by (metis less_numeral_extra(3) unat_0)
  have pu: "unat (pwm_get_period s' (st_pwm (iio_trigger_get_drvdata s' trig))) =
      ceil_div NSEC_PER_SEC (unat f)"
    by (simp only: per period_word [OF u0])
  have lt: "unat (pwm_get_period s' (st_pwm (iio_trigger_get_drvdata s' trig))) < 2 ^ 32"
    unfolding pu using period_fits [OF u0] by simp
  have "Some (uint f) =
      Some (round (1000000000 / real (unat (pwm_get_period s' (st_pwm (iio_trigger_get_drvdata s' trig))))))"
    using get_rate_nonzero [OF ne lt] by (simp add: rate)
  then have "uint f = round (1000000000 / real (ceil_div NSEC_PER_SEC (unat f)))"
    by (simp add: pu)
  also have "real (ceil_div NSEC_PER_SEC (unat f)) = real_of_int \<lceil>1000000000 / real (unat f)\<rceil>"
  proof -
    have "int (ceil_div NSEC_PER_SEC (unat f)) = \<lceil>1000000000 / real (unat f)\<rceil>"
      using ceil_div_ceiling [OF u0, of NSEC_PER_SEC] by (simp add: NSEC_PER_SEC_def)
    then have "real_of_int (int (ceil_div NSEC_PER_SEC (unat f))) =
        real_of_int \<lceil>1000000000 / real (unat f)\<rceil>"
      by (rule arg_cong)
    then show ?thesis
      by (simp only: of_int_of_nat_eq)
  qed
  finally have "uint f = round (1000000000 / real_of_int \<lceil>1000000000 / real (unat f)\<rceil>)" .
  then show "\<exists>rate. axi_spi_engine_offload_pwm_trigger_get_rate s' trig = Some rate \<and>
         uint rate = round (1000000000 / real_of_int \<lceil>1000000000 / real (unat f)\<rceil>) \<and>
         \<bar>uint rate - uint f\<bar> \<le> 1"
    using rate by simp
qed

theorem get_rate_round_trip_witness:
  "pwm_get_period stopped_state (st_pwm (iio_trigger_get_drvdata stopped_state 7)) = 0 \<and>
   axi_spi_engine_offload_pwm_trigger_get_rate stopped_state 7 = Some 0 \<and>
   pwm_get_period example_state (st_pwm (iio_trigger_get_drvdata example_state 7)) = 1000000 \<and>
   unat (1000000 :: 64 word) < 2 ^ 32 \<and>
   map_option uint (axi_spi_engine_offload_pwm_trigger_get_rate example_state 7) = Some 1000 \<and>
   1 \<le> unat (500 :: 32 word) \<and> unat (500 :: 32 word) \<le> 10000 \<and>
   axi_spi_engine_offload_set_samp_freq example_kernel example_state
     (iio_trigger_get_drvdata example_state 7) 500 = (0, example_state_500) \<and>
   map_option uint (axi_spi_engine_offload_pwm_trigger_get_rate example_state_500 7) = Some 500"
proof -
  have a: "pwm_get_period stopped_state (st_pwm (iio_trigger_get_drvdata stopped_state 7)) = 0"
    and b: "pwm_get_period example_state (st_pwm (iio_trigger_get_drvdata example_state 7)) = 1000000"
    by (simp_all add: pwm_get_period_def example_defs)
  have c: "1 \<le> unat (500 :: 32 word) \<and> unat (500 :: 32 word) \<le> 10000 \<and>
     axi_spi_engine_offload_set_samp_freq example_kernel example_state
       (iio_trigger_get_drvdata example_state 7) 500 = (0, example_state_500)"
    by (simp add: example_state_500_def prod_eq_iff)
      (simp add: axi_spi_engine_offload_set_samp_freq_def pwm_config_def Let_def example_kernel_def)
  have r: "round (1000000000 / real (unat (1000000 :: 64 word))) = 1000"
    "round (1000000000 / real_of_int \<lceil>1000000000 / real (unat (500 :: 32 word))\<rceil>) = 500"
    by (simp_all add: ceiling_unique)
  have "map_option uint (axi_spi_engine_offload_pwm_trigger_get_rate example_state_500 7) = Some 500"
    using c get_rate_round_trip [of example_state 7 500 example_kernel example_state_500]
    by (auto simp add: r)
  then show ?thesis
    using a b c
      get_rate_round_trip [of stopped_state 7 500 example_kernel example_state_500]
      get_rate_round_trip [of example_state 7 500 example_kernel example_state_500]
    by (simp add: r)
qed

text \<open>
  C5 as it is stated fails for periods of \<open>2 ^ 32\<close> nanoseconds and more. At the period
  4294967298 the low 32 bits of the divisor are 2, and the rate read back is
  \<open>(10 ^ 9 + 2147483649) div 2 = 1573741824\<close>, although \<^verbatim>\<open>round(1e9 / 4294967298)\<close> is 0. At
  the period 4294967296 they are 0 and the division has no result.
\<close>

theorem get_rate_round_trip_counterexample:
  "pwm_get_period long_period_state (st_pwm (iio_trigger_get_drvdata long_period_state 7)) = 4294967298 \<and>
   (4294967298 :: 64 word) \<noteq> 0 \<and>
   round (1000000000 / real (unat (4294967298 :: 64 word))) = 0 \<and>
   axi_spi_engine_offload_pwm_trigger_get_rate long_period_state 7 = Some 1573741824 \<and>
   pwm_get_period period_2_32_state (st_pwm (iio_trigger_get_drvdata period_2_32_state 7)) = 4294967296 \<and>
   (4294967296 :: 64 word) \<noteq> 0 \<and>
   axi_spi_engine_offload_pwm_trigger_get_rate period_2_32_state 7 = None"
proof -
  have r: "round (1000000000 / real (unat (4294967298 :: 64 word))) = 0"
    by (rule round_unique) simp_all
  have g: "axi_spi_engine_offload_pwm_trigger_get_rate long_period_state 7 = Some 1573741824"
    "axi_spi_engine_offload_pwm_trigger_get_rate period_2_32_state 7 = None"
    by (simp_all add: axi_spi_engine_offload_pwm_trigger_get_rate_def iio_trigger_get_drvdata_def
        pwm_get_period_def example_defs DIV_ROUND_CLOSEST_ULL_def NSEC_PER_SEC_def Let_def)
  show ?thesis
    using r g by (simp add: pwm_get_period_def iio_trigger_get_drvdata_def example_defs)
qed

subsection \<open>The rate attribute\<close>

lemma nl_not_digit: "\<not> is_digit (CHR 0x0A)"
  by (simp add: is_digit_def)

lemma kstrtou32_numeric:
  assumes "kstrtou32 buf = Inr v"
  shows "numeric_payload buf"
proof -
  let ?s = "skip_plus buf"
  let ?ds = "takeWhile is_digit ?s"
  let ?rest = "dropWhile is_digit ?s"
  have ds: "?ds \<noteq> []" and rest: "?rest = [] \<or> ?rest = [CHR 0x0A]"
    using assms by (auto simp add: kstrtou32_def Let_def split: if_splits)
  have s: "?s = ?ds @ ?rest"
    by simp
  have dig: "list_all is_digit ?ds"
    by (simp add: list_all_iff) (meson set_takeWhileD)
  from rest show ?thesis
  proof
    assume r: "?rest = []"
    then have "\<forall>x\<in>set ?s. is_digit x"
      by (simp only: dropWhile_eq_Nil_conv)
    then have "?ds = ?s"
      by (simp only: takeWhile_eq_all_conv)
    then have all: "?s = ?ds" ..
    then have "last ?s \<in> set ?ds"
      using ds by (metis last_in_set)
    then have "is_digit (last ?s)"
      using dig by (simp add: list_all_iff)
    then have "last ?s \<noteq> CHR 0x0A"
      using nl_not_digit by auto
    then show ?thesis
      using ds dig all by (simp add: numeric_payload_def Let_def)
  next
    assume r: "?rest = [CHR 0x0A]"
    then have all: "?s = ?ds @ [CHR 0x0A]"
      using s by simp
    show ?thesis
      unfolding numeric_payload_def Let_def
      by (subst all, subst all, subst all, subst all) (use ds dig in simp)
  qed
qed


lemma kstrtou32_error:
  assumes "kstrtou32 buf = Inl e"
  shows "e = - EINVAL \<or> e = - ERANGE"
  using assms by (auto simp add: kstrtou32_def Let_def split: if_splits)

lemma rate_attribute_example:
  "sampling_frequency_store example_kernel example_state 7 [CHR ''5'', CHR ''0'', CHR ''0'', CHR 0x0A] 4 =
     (4, example_state_500) \<and>
   sampling_frequency_show example_state_500 7 = Some [CHR ''5'', CHR ''0'', CHR ''0'', CHR 0x0A] \<and>
   sampling_frequency_show example_state 7 =
     Some [CHR ''1'', CHR ''0'', CHR ''0'', CHR ''0'', CHR 0x0A]"
proof -
  have p: "kstrtou32 [CHR ''5'', CHR ''0'', CHR ''0'', CHR 0x0A] = Inr 500"
    by (simp add: kstrtou32_def skip_plus_def is_digit_def parse_decimal_def digit_val_def)
  have w: "sampling_frequency_store example_kernel example_state 7
      [CHR ''5'', CHR ''0'', CHR ''0'', CHR 0x0A] 4 = (4, example_state_500)"
    by (simp add: sampling_frequency_store_def p example_state_500_def
        axi_spi_engine_offload_set_samp_freq_def pwm_config_def Let_def example_kernel_def
        split: prod.splits)
  have f: "1 \<le> unat (500 :: 32 word)" "unat (500 :: 32 word) \<le> 10000"
    by simp_all
  have s: "axi_spi_engine_offload_set_samp_freq example_kernel example_state
      (iio_trigger_get_drvdata example_state 7) 500 = (0, example_state_500)"
    by (simp add: example_state_500_def prod_eq_iff)
      (simp add: axi_spi_engine_offload_set_samp_freq_def pwm_config_def Let_def example_kernel_def)
  have r5: "axi_spi_engine_offload_pwm_trigger_get_rate example_state_500 7 = Some 500"
    by (rule get_rate_after_set(1) [OF f s])
  have r1: "axi_spi_engine_offload_pwm_trigger_get_rate example_state 7 = Some 1000"
    by (simp add: axi_spi_engine_offload_pwm_trigger_get_rate_def iio_trigger_get_drvdata_def
        pwm_get_period_def example_defs DIV_ROUND_CLOSEST_ULL_def NSEC_PER_SEC_def Let_def)
  have d: "print_decimal 500 = ''500''" "print_decimal 1000 = ''1000''"
    by (simp_all add: print_decimal.simps)
  show ?thesis
    by (simp add: w sampling_frequency_show_def r5 r1 d)
qed

text \<open>
  C6: a write to the rate attribute whose payload is not a number, or is the number 0,
  fails with a negative errno, \<^verbatim>\<open>-EINVAL\<close> for 0, and returns the state it started from:
  no call to the pulse source is made, period and duty cycle are unchanged, and a read
  of the attribute shows the same frequency as before.
\<close>

theorem store_rejects:
  assumes "\<not> numeric_payload buf \<or> kstrtou32 buf = Inr 0"
  shows "snd (sampling_frequency_store k s trig buf len) = s \<and>
    fst (sampling_frequency_store k s trig buf len) < 0 \<and>
    (kstrtou32 buf = Inr 0 \<longrightarrow> fst (sampling_frequency_store k s trig buf len) = - EINVAL) \<and>
    pwms (snd (sampling_frequency_store k s trig buf len)) = pwms s \<and>
    trace (snd (sampling_frequency_store k s trig buf len)) = trace s \<and>
    axi_spi_engine_offload_pwm_trigger_get_rate (snd (sampling_frequency_store k s trig buf len)) trig =
      axi_spi_engine_offload_pwm_trigger_get_rate s trig \<and>
    sampling_frequency_show (snd (sampling_frequency_store k s trig buf len)) trig =
      sampling_frequency_show s trig"
proof -
  have "snd (sampling_frequency_store k s trig buf len) = s \<and>
    fst (sampling_frequency_store k s trig buf len) < 0 \<and>
    (kstrtou32 buf = Inr 0 \<longrightarrow> fst (sampling_frequency_store k s trig buf len) = - EINVAL)"
  proof (cases "kstrtou32 buf")
    case (Inl e)
    then have "e < 0"
      using kstrtou32_error [OF Inl] by (auto simp add: EINVAL_def ERANGE_def)
    then show ?thesis
      using Inl by (simp add: sampling_frequency_store_def)
  next
    case (Inr v)
    then have "v = 0"
      using assms kstrtou32_numeric [OF Inr] by simp
    then show ?thesis
      using Inr
      by (simp add: sampling_frequency_store_def axi_spi_engine_offload_set_samp_freq_def EINVAL_def)
  qed
  then show ?thesis
    by simp
qed

theorem store_rejects_witness:
  "\<not> numeric_payload ''fast'' \<and>
   sampling_frequency_store example_kernel example_state 7 ''fast'' 4 = (- 22, example_state) \<and>
   kstrtou32 [CHR ''0'', CHR 0x0A] = Inr 0 \<and>
   sampling_frequency_store example_kernel example_state 7 [CHR ''0'', CHR 0x0A] 2 = (- 22, example_state)"
proof -
  have a: "\<not> numeric_payload ''fast''"
    by (simp add: numeric_payload_def skip_plus_def is_digit_def)
  have b: "kstrtou32 [CHR ''0'', CHR 0x0A] = Inr 0"
    by (simp add: kstrtou32_def skip_plus_def is_digit_def parse_decimal_def digit_val_def)
  have c: "kstrtou32 ''fast'' = Inl (- 22)"
    by (simp add: kstrtou32_def skip_plus_def is_digit_def parse_decimal_def EINVAL_def)
  have d: "fst (sampling_frequency_store example_kernel example_state 7 ''fast'' 4) = - 22"
    by (simp add: sampling_frequency_store_def c)
  show ?thesis
    using a b d
      store_rejects [OF disjI1 [OF a], of example_kernel example_state 7 4]
      store_rejects [OF disjI2 [OF b], of example_kernel example_state 7 2]
    by (simp add: prod_eq_iff EINVAL_def)
qed

section \<open>Properties of provider initialisation\<close>

lemmas probe_defs = axi_offload_pwm_trigger_probe_def trigger_name_def devm_kzalloc_def devm_pwm_get_def
  devm_iio_dmaengine_buffer_alloc_def devm_iio_trigger_alloc_def axi_spi_engine_offload_set_samp_freq_def
  pwm_config_def pwm_enable_def devm_add_action_or_reset_def devm_iio_trigger_register_def
  dev_err_probe_def log_def axi_offload_pwm_trigger_pwm_disable_def pwm_disable_def

lemma default_period: "DIV_ROUND_UP a NSEC_PER_SEC 1000 = 1000000"
  by (cases a) (simp_all add: DIV_ROUND_UP_def NSEC_PER_SEC_def)

lemma probe_failure:
  assumes "axi_offload_pwm_trigger_probe k s pdev = (ret, s')" and "ret \<noteq> 0"
  shows "iio_trigger_list s' = iio_trigger_list s"
  using assms
  by (auto simp add: probe_defs Let_def default_period split: prod.splits sum.splits option.splits if_splits bool.splits)

lemma probe_success:
  assumes "axi_offload_pwm_trigger_probe k s pdev = (0, s')"
    and "err_ptr_ok (k_pwm_get k (pdev_dev pdev))"
    and "err_ptr_ok (k_buffer_alloc k (pdev_dev pdev) ''rx'')"
  shows "\<exists>pwm buffer trig.
    k_pwm_get k (pdev_dev pdev) = Inr pwm \<and> k_buffer_alloc k (pdev_dev pdev) ''rx'' = Inr buffer \<and>
    k_trigger_alloc k (pdev_dev pdev) (trigger_name k pdev) = Some trig \<and>
    k_pwm_config k pwm 10 1000000 = 0 \<and> k_pwm_enable k pwm = 0 \<and>
    trace s' = trace s @
      [Devm_kzalloc (pdev_dev pdev), Devm_pwm_get (pdev_dev pdev),
       Devm_iio_dmaengine_buffer_alloc (pdev_dev pdev) ''rx'',
       Devm_iio_trigger_alloc (pdev_dev pdev) (trigger_name k pdev),
       Pwm_config pwm 10 1000000, Pwm_enable pwm,
       Devm_add_action_or_reset (pdev_dev pdev) (Pwm_disable_action pwm),
       Devm_iio_trigger_register (pdev_dev pdev) trig] \<and>
    pwms s' = (pwms s)(pwm := (pwms s pwm)
       \<lparr>pwm_period := 1000000, pwm_duty_cycle := 10, pwm_enabled := True\<rparr>) \<and>
    iio_trigger_list s' = iio_trigger_list s @ [trig] \<and>
    trigs s' = (trigs s)(trig := (trigs s trig)
       \<lparr>t_name := trigger_name k pdev, t_refcount := 1, t_ops := axi_offload_pwm_trigger_ops,
        t_parent := Some (pdev_dev pdev), t_groups := axi_offload_pwm_trigger_groups,
        t_drvdata := \<lparr>st_buffer = buffer, st_pwm = pwm\<rparr>\<rparr>) \<and>
    devres s' = (devres s)(pdev_dev pdev :=
       Trigger_unregister trig # Pwm_disable_action pwm # devres s (pdev_dev pdev))"
  using assms
  by (auto simp add: probe_defs Let_def default_period err_ptr_ok_def errno_values
      split: prod.splits sum.splits option.splits if_splits bool.splits)

lemma find_append_last:
  "\<forall>t\<in>set l. t \<noteq> x \<longrightarrow> \<not> Q t \<Longrightarrow> Q x \<Longrightarrow> find Q (l @ [x]) = Some x"
  by (induction l) auto

lemma find_registered:
  assumes "iio_trigger_find_by_parent s dev = None"
    and "iio_trigger_list s' = iio_trigger_list s @ [trig]"
    and "t_parent (trigs s' trig) = Some dev"
    and "\<forall>t. t \<noteq> trig \<longrightarrow> trigs s' t = trigs s t"
  shows "iio_trigger_find_by_parent s' dev = Some trig"
proof -
  have "\<forall>t\<in>set (iio_trigger_list s). t_parent (trigs s t) \<noteq> Some dev"
    using assms(1) by (simp add: iio_trigger_find_by_parent_def find_None_iff)
  then have "\<forall>t\<in>set (iio_trigger_list s). t \<noteq> trig \<longrightarrow> \<not> t_parent (trigs s' t) = Some dev"
    using assms(4) by simp
  then show ?thesis
    unfolding iio_trigger_find_by_parent_def assms(2)
    using assms(3) by (rule find_append_last)
qed

text \<open>
  C10: every probe that returns 0 has configured the pulse source with
  \<^verbatim>\<open>pwm_config(pwm, 10, 1000000)\<close>, the period of 1000 Hz, has enabled it, both with
  success, and only then has registered the trigger, which is the last call of the
  probe; the trigger is then in the registry with the operations table of the driver,
  owned by the device, a lookup by the owner finds it when the owner had no trigger
  before, and the rate read back from it is 1000 Hz. A probe that fails leaves the
  registry as it was.
\<close>

theorem probe_default_rate:
  assumes "axi_offload_pwm_trigger_probe k s pdev = (ret, s')"
    and "err_ptr_ok (k_pwm_get k (pdev_dev pdev))"
    and "err_ptr_ok (k_buffer_alloc k (pdev_dev pdev) ''rx'')"
  shows "(ret = 0 \<longrightarrow> (\<exists>pwm buffer trig.
      k_pwm_config k pwm 10 1000000 = 0 \<and> k_pwm_enable k pwm = 0 \<and>
      trace s' = trace s @
        [Devm_kzalloc (pdev_dev pdev), Devm_pwm_get (pdev_dev pdev),
         Devm_iio_dmaengine_buffer_alloc (pdev_dev pdev) ''rx'',
         Devm_iio_trigger_alloc (pdev_dev pdev) (trigger_name k pdev),
         Pwm_config pwm 10 1000000, Pwm_enable pwm,
         Devm_add_action_or_reset (pdev_dev pdev) (Pwm_disable_action pwm),
         Devm_iio_trigger_register (pdev_dev pdev) trig] \<and>
      pwm_period (pwms s' pwm) = 1000000 \<and> pwm_duty_cycle (pwms s' pwm) = 10 \<and>
      pwm_enabled (pwms s' pwm) \<and>
      iio_trigger_list s' = iio_trigger_list s @ [trig] \<and>
      t_ops (trigs s' trig) = axi_offload_pwm_trigger_ops \<and>
      t_parent (trigs s' trig) = Some (pdev_dev pdev) \<and>
      t_drvdata (trigs s' trig) = \<lparr>st_buffer = buffer, st_pwm = pwm\<rparr> \<and>
      axi_spi_engine_offload_pwm_trigger_get_rate s' trig = Some 1000 \<and>
      (iio_trigger_find_by_parent s (pdev_dev pdev) = None \<longrightarrow>
         iio_trigger_find_by_parent s' (pdev_dev pdev) = Some trig))) \<and>
    (ret \<noteq> 0 \<longrightarrow> iio_trigger_list s' = iio_trigger_list s)"
proof (cases "ret = 0")
  case False
  then show ?thesis
    using probe_failure [OF assms(1)] by simp
next
  case True
  then have p: "axi_offload_pwm_trigger_probe k s pdev = (0, s')"
    using assms(1) by simp
  obtain pwm buffer trig where
    c: "k_pwm_config k pwm 10 1000000 = 0" "k_pwm_enable k pwm = 0"
    and tr: "trace s' = trace s @
        [Devm_kzalloc (pdev_dev pdev), Devm_pwm_get (pdev_dev pdev),
         Devm_iio_dmaengine_buffer_alloc (pdev_dev pdev) ''rx'',
         Devm_iio_trigger_alloc (pdev_dev pdev) (trigger_name k pdev),
         Pwm_config pwm 10 1000000, Pwm_enable pwm,
         Devm_add_action_or_reset (pdev_dev pdev) (Pwm_disable_action pwm),
         Devm_iio_trigger_register (pdev_dev pdev) trig]"
    and pw: "pwms s' = (pwms s)(pwm := (pwms s pwm)
       \<lparr>pwm_period := 1000000, pwm_duty_cycle := 10, pwm_enabled := True\<rparr>)"
    and li: "iio_trigger_list s' = iio_trigger_list s @ [trig]"
    and tg: "trigs s' = (trigs s)(trig := (trigs s trig)
       \<lparr>t_name := trigger_name k pdev, t_refcount := 1, t_ops := axi_offload_pwm_trigger_ops,
        t_parent := Some (pdev_dev pdev), t_groups := axi_offload_pwm_trigger_groups,
        t_drvdata := \<lparr>st_buffer = buffer, st_pwm = pwm\<rparr>\<rparr>)"
    using probe_success [OF p assms(2,3)] by blast
  have rate: "axi_spi_engine_offload_pwm_trigger_get_rate s' trig = Some 1000"
    by (simp add: axi_spi_engine_offload_pwm_trigger_get_rate_def iio_trigger_get_drvdata_def
        pwm_get_period_def tg pw DIV_ROUND_CLOSEST_ULL_def NSEC_PER_SEC_def Let_def)
  have found: "iio_trigger_find_by_parent s' (pdev_dev pdev) = Some trig"
    if "iio_trigger_find_by_parent s (pdev_dev pdev) = None"
    using that li by (rule find_registered) (simp_all add: tg)
  show ?thesis
    using True c tr li rate found by (auto simp add: pw tg)
qed

theorem probe_default_rate_witness:
  "err_ptr_ok (k_pwm_get example_kernel (pdev_dev example_pdev)) \<and>
   err_ptr_ok (k_buffer_alloc example_kernel (pdev_dev example_pdev) ''rx'') \<and>
   fst (axi_offload_pwm_trigger_probe example_kernel probe_state example_pdev) = 0 \<and>
   iio_trigger_find_by_parent probe_state (pdev_dev example_pdev) = None \<and>
   (\<exists>pwm buffer trig.
      pwm_period (pwms (snd (axi_offload_pwm_trigger_probe example_kernel probe_state example_pdev)) pwm) =
        1000000 \<and>
      pwm_duty_cycle (pwms (snd (axi_offload_pwm_trigger_probe example_kernel probe_state example_pdev)) pwm) =
        10 \<and>
      pwm_enabled (pwms (snd (axi_offload_pwm_trigger_probe example_kernel probe_state example_pdev)) pwm) \<and>
      t_drvdata (trigs (snd (axi_offload_pwm_trigger_probe example_kernel probe_state example_pdev)) trig) =
        \<lparr>st_buffer = buffer, st_pwm = pwm\<rparr> \<and>
      axi_spi_engine_offload_pwm_trigger_get_rate
        (snd (axi_offload_pwm_trigger_probe example_kernel probe_state example_pdev)) trig = Some 1000 \<and>
      iio_trigger_find_by_parent
        (snd (axi_offload_pwm_trigger_probe example_kernel probe_state example_pdev))
        (pdev_dev example_pdev) = Some trig) \<and>
   err_ptr_ok (k_pwm_get failing_enable_kernel (pdev_dev example_pdev)) \<and>
   err_ptr_ok (k_buffer_alloc failing_enable_kernel (pdev_dev example_pdev) ''rx'') \<and>
   fst (axi_offload_pwm_trigger_probe failing_enable_kernel probe_state example_pdev) = - EINVAL \<and>
   iio_trigger_list (snd (axi_offload_pwm_trigger_probe failing_enable_kernel probe_state example_pdev)) =
     []"
proof -
  have h1: "err_ptr_ok (k_pwm_get example_kernel (pdev_dev example_pdev))"
    and h2: "err_ptr_ok (k_buffer_alloc example_kernel (pdev_dev example_pdev) ''rx'')"
    and g1: "err_ptr_ok (k_pwm_get failing_enable_kernel (pdev_dev example_pdev))"
    and g2: "err_ptr_ok (k_buffer_alloc failing_enable_kernel (pdev_dev example_pdev) ''rx'')"
    by (simp_all add: err_ptr_ok_def example_kernel_def failing_enable_kernel_def)
  have r: "fst (axi_offload_pwm_trigger_probe example_kernel probe_state example_pdev) = 0"
    by (simp add: probe_defs Let_def default_period example_kernel_def)
  have q: "fst (axi_offload_pwm_trigger_probe failing_enable_kernel probe_state example_pdev) = - EINVAL"
    by (simp add: probe_defs Let_def default_period example_kernel_def failing_enable_kernel_def
        errno_values)
  have q': "fst (axi_offload_pwm_trigger_probe failing_enable_kernel probe_state example_pdev) \<noteq> 0"
    unfolding q by (simp add: errno_values)
  have f: "iio_trigger_find_by_parent probe_state (pdev_dev example_pdev) = None"
    and l: "iio_trigger_list probe_state = []"
    by (simp_all add: iio_trigger_find_by_parent_def probe_state_def)
  have a: "\<exists>pwm buffer trig.
      pwm_period (pwms (snd (axi_offload_pwm_trigger_probe example_kernel probe_state example_pdev)) pwm) =
        1000000 \<and>
      pwm_duty_cycle (pwms (snd (axi_offload_pwm_trigger_probe example_kernel probe_state example_pdev)) pwm) =
        10 \<and>
      pwm_enabled (pwms (snd (axi_offload_pwm_trigger_probe example_kernel probe_state example_pdev)) pwm) \<and>
      t_drvdata (trigs (snd (axi_offload_pwm_trigger_probe example_kernel probe_state example_pdev)) trig) =
        \<lparr>st_buffer = buffer, st_pwm = pwm\<rparr> \<and>
      axi_spi_engine_offload_pwm_trigger_get_rate
        (snd (axi_offload_pwm_trigger_probe example_kernel probe_state example_pdev)) trig = Some 1000 \<and>
      iio_trigger_find_by_parent
        (snd (axi_offload_pwm_trigger_probe example_kernel probe_state example_pdev))
        (pdev_dev example_pdev) = Some trig"
    using r f probe_default_rate [OF prod.collapse [symmetric] h1 h2]
    by fastforce
  have b: "iio_trigger_list (snd (axi_offload_pwm_trigger_probe failing_enable_kernel probe_state
      example_pdev)) = []"
    using q' l probe_default_rate [OF prod.collapse [symmetric] g1 g2]
    by simp
  show ?thesis
    using h1 h2 r f a g1 g2 q b by simp
qed

end
